theory Spec2Isabelle
  imports Complex_Main "HOL-Library.Sublist" "HOL-Library.AList"
begin

section \<open>Python values\<close>

text \<open>
  A Python \<open>str\<close> is a sequence of Unicode code points; it is modelled as a list of
  natural numbers.  \<open>S\<close> turns an ASCII literal into such a string.  A Python
  \<open>float\<close> is modelled as a real number, \<open>Optional[t]\<close> as \<open>t option\<close>.
\<close>

type_synonym cp = nat
type_synonym pystr = "cp list"

definition S :: "string \<Rightarrow> pystr" where
  "S cs = map of_char cs"

datatype exn = ValueError | KeyError | AttributeError | TypeError | JSONDecodeError
  | ValidationError | OtherError

text \<open>Truth value of an optional string, an optional float and an optional datetime
  (\<open>None\<close>, the empty string and zero are false).\<close>

definition truthy_str :: "pystr option \<Rightarrow> bool" where
  "truthy_str v = (case v of None \<Rightarrow> False | Some s \<Rightarrow> s \<noteq> [])"

definition truthy_float :: "real option \<Rightarrow> bool" where
  "truthy_float v = (case v of None \<Rightarrow> False | Some x \<Rightarrow> x \<noteq> 0)"

definition truthy_opt :: "'a option \<Rightarrow> bool" where
  "truthy_opt v = (case v of None \<Rightarrow> False | Some x \<Rightarrow> True)"



definition lower_cp :: "cp \<Rightarrow> cp" where
  "lower_cp c = (if (65 \<le> c \<and> c \<le> 90) \<or> (192 \<le> c \<and> c \<le> 222 \<and> c \<noteq> 215)
                 then c + 32 else c)"

definition lower :: "pystr \<Rightarrow> pystr" where
  "lower s = map lower_cp s"

section \<open>Data models (data\_models.py)\<close>

datatype EventKategorie = MUSIK | COMEDY | ESSEN | PARTY | THEATER | SPORT | WORKSHOP
  | FESTIVAL | KULTUR | ANDERE

fun kategorie_value :: "EventKategorie \<Rightarrow> string" where
  "kategorie_value MUSIK = ''musik''"
| "kategorie_value COMEDY = ''comedy''"
| "kategorie_value ESSEN = ''essen''"
| "kategorie_value PARTY = ''party''"
| "kategorie_value THEATER = ''theater''"
| "kategorie_value SPORT = ''sport''"
| "kategorie_value WORKSHOP = ''workshop''"
| "kategorie_value FESTIVAL = ''festival''"
| "kategorie_value KULTUR = ''kultur''"
| "kategorie_value ANDERE = ''andere''"

type_synonym datetime = int

record Ort =
  veranstaltungsort :: "pystr option"
  adresse :: "pystr option"
  stadt :: "pystr option"
  postleitzahl :: "pystr option"
  bundesland :: "pystr option"

record Termine =
  beginn :: "datetime option"
  ende :: "datetime option"
  einlass :: "datetime option"

record Preise =
  kostenlos :: bool
  preis :: "real option"
  waehrung :: pystr
  vorverkauf :: "real option"
  abendkasse :: "real option"

record Kuenstler =
  name :: pystr
  info :: "pystr option"

record TicketInfo =
  verkaufsstellen :: "pystr list"
  online_links :: "pystr list"
  ticket_telefon :: "pystr option"

record Kontakt =
  veranstalter :: "pystr option"
  telefon :: "pystr option"
  email :: "pystr option"
  website :: "pystr option"

record Metadaten =
  kuenstler :: "Kuenstler list"
  ticketinfo :: TicketInfo
  kontakt :: Kontakt
  quellen :: "pystr list"
  vertrauenswuerdigkeit :: real

record EventData =
  veranstaltungsname :: pystr
  ort :: Ort
  termine :: Termine
  preise :: Preise
  beschreibung :: "pystr option"
  kategorie :: EventKategorie
  metadaten :: Metadaten
  erkannte_links :: "pystr list"
  erkannte_qr_codes :: "pystr list"
  sprache :: pystr


text \<open>The defaults of the field declarations: \<open>EventData(veranstaltungsname=n)\<close>.\<close>

definition default_Ort :: Ort where
  "default_Ort = \<lparr>veranstaltungsort = None, adresse = None, stadt = None,
     postleitzahl = None, bundesland = None\<rparr>"

definition default_Termine :: Termine where
  "default_Termine = \<lparr>beginn = None, ende = None, einlass = None\<rparr>"

definition default_Preise :: Preise where
  "default_Preise = \<lparr>kostenlos = False, preis = None, waehrung = S ''EUR'',
     vorverkauf = None, abendkasse = None\<rparr>"

definition default_TicketInfo :: TicketInfo where
  "default_TicketInfo = \<lparr>verkaufsstellen = [], online_links = [], ticket_telefon = None\<rparr>"

definition default_Kontakt :: Kontakt where
  "default_Kontakt = \<lparr>veranstalter = None, telefon = None, email = None, website = None\<rparr>"

definition default_Metadaten :: Metadaten where
  "default_Metadaten = \<lparr>kuenstler = [], ticketinfo = default_TicketInfo,
     kontakt = default_Kontakt, quellen = [], vertrauenswuerdigkeit = 0\<rparr>"

definition new_EventData :: "pystr \<Rightarrow> EventData" where
  "new_EventData n = \<lparr>veranstaltungsname = n, ort = default_Ort, termine = default_Termine,
     preise = default_Preise, beschreibung = None, kategorie = ANDERE,
     metadaten = default_Metadaten, erkannte_links = [], erkannte_qr_codes = [],
     sprache = S ''de''\<rparr>"

section \<open>Quality pass (analyzer.py)\<close>

text \<open>\<open>PosterAnalyzer._assess_data_quality\<close>: the list of quality factors is built by
  seven independent tests, each appending one label.\<close>

definition quality_factors :: "EventData \<Rightarrow> string list" where
  "quality_factors e =
     (if veranstaltungsname e \<noteq> [] then [''event_name''] else []) @
     (if truthy_str (veranstaltungsort (ort e)) \<or> truthy_str (adresse (ort e))
      then [''location''] else []) @
     (if truthy_opt (beginn (termine e)) then [''datetime''] else []) @
     (if kostenlos (preise e) \<or> truthy_float (preis (preise e)) then [''pricing''] else []) @
     (if truthy_str (telefon (kontakt (metadaten e))) \<or>
         truthy_str (email (kontakt (metadaten e))) \<or>
         truthy_str (website (kontakt (metadaten e)))
      then [''contact''] else []) @
     (if erkannte_qr_codes e \<noteq> [] \<or> erkannte_links e \<noteq> [] then [''sources''] else []) @
     (if kategorie_value (kategorie e) \<noteq> [] \<and> kategorie_value (kategorie e) \<noteq> ''andere''
      then [''category''] else [])"

definition quality_score :: "EventData \<Rightarrow> real" where
  "quality_score e = real (length (quality_factors e)) / 7"

definition set_confidence :: "real \<Rightarrow> EventData \<Rightarrow> EventData" where
  "set_confidence x e = e\<lparr>metadaten := (metadaten e)\<lparr>vertrauenswuerdigkeit := x\<rparr>\<rparr>"

definition confidence :: "EventData \<Rightarrow> real" where
  "confidence e = vertrauenswuerdigkeit (metadaten e)"

definition assess_data_quality :: "EventData \<Rightarrow> EventData" where
  "assess_data_quality e =
     (if quality_score e > vertrauenswuerdigkeit (metadaten e)
      then set_confidence (min 1.0 ((vertrauenswuerdigkeit (metadaten e) + quality_score e) / 2)) e
      else e)"


text \<open>The seven completeness factors in the words of the specification, and the number
  \<open>k\<close> of them that hold.\<close>

definition completeness_factors :: "EventData \<Rightarrow> bool list" where
  "completeness_factors e =
     [veranstaltungsname e \<noteq> [],
      truthy_str (veranstaltungsort (ort e)) \<or> truthy_str (adresse (ort e)),
      truthy_opt (beginn (termine e)),
      kostenlos (preise e) \<or> truthy_float (preis (preise e)),
      truthy_str (telefon (kontakt (metadaten e))) \<or> truthy_str (email (kontakt (metadaten e)))
        \<or> truthy_str (website (kontakt (metadaten e))),
      erkannte_qr_codes e \<noteq> [] \<or> erkannte_links e \<noteq> [],
      kategorie e \<noteq> ANDERE]"

definition completeness_count :: "EventData \<Rightarrow> nat" where
  "completeness_count e = length (filter (\<lambda>b. b) (completeness_factors e))"

section \<open>Regular expressions (the patterns of web\_scraper.py)\<close>

text \<open>
  The classes \<open>\d\<close>, \<open>\s\<close> and \<open>\w\<close> of a \<open>str\<close> pattern follow the Unicode
  database; they are given here for U+0000 to U+00FF, and a code point outside these two
  blocks is in none of them.
\<close>

definition re_digit :: "cp \<Rightarrow> bool" where
  "re_digit c = (48 \<le> c \<and> c \<le> 57)"

definition re_space :: "cp \<Rightarrow> bool" where
  "re_space c = ((9 \<le> c \<and> c \<le> 13) \<or> (28 \<le> c \<and> c \<le> 32) \<or> c = 133 \<or> c = 160)"

definition re_word :: "cp \<Rightarrow> bool" where
  "re_word c = ((48 \<le> c \<and> c \<le> 57) \<or> (65 \<le> c \<and> c \<le> 90) \<or> c = 95 \<or> (97 \<le> c \<and> c \<le> 122)
     \<or> c = 170 \<or> c = 178 \<or> c = 179 \<or> c = 181 \<or> c = 185 \<or> c = 186
     \<or> (188 \<le> c \<and> c \<le> 190) \<or> (192 \<le> c \<and> c \<le> 214) \<or> (216 \<le> c \<and> c \<le> 246)
     \<or> (248 \<le> c \<and> c \<le> 255))"

text \<open>A member of a bracket expression, and the syntax of the patterns that occur:
  literal, class, concatenation, alternative, greedy repetition \<open>{m,n}\<close> (no upper bound:
  \<open>None\<close>), capturing group and the word boundary \<open>\b\<close>.\<close>

datatype citem = Ch cp | Rng cp cp | Digit | Space

datatype rx = Eps | Lit cp | Cls "citem list" | Cat rx rx | Alt rx rx
  | Rep nat "nat option" rx | Grp nat rx | WordB

fun in_citem :: "cp \<Rightarrow> citem \<Rightarrow> bool" where
  "in_citem c (Ch d) = (c = d)"
| "in_citem c (Rng lo hi) = (lo \<le> c \<and> c \<le> hi)"
| "in_citem c Digit = re_digit c"
| "in_citem c Space = re_space c"

definition in_class :: "cp \<Rightarrow> citem list \<Rightarrow> bool" where
  "in_class c items = list_ex (in_citem c) items"

text \<open>The state of a match attempt: the character before the position, the position, the
  text from the position on and the groups captured so far (the latest capture first).\<close>

record mstate =
  prev :: "cp option"
  pos :: nat
  rest :: pystr
  groups :: "(nat \<times> pystr) list"

definition advance :: "mstate \<Rightarrow> mstate" where
  "advance s = (case rest s of [] \<Rightarrow> s
     | x # xs \<Rightarrow> s\<lparr>prev := Some x, pos := Suc (pos s), rest := xs\<rparr>)"

definition word_at :: "cp option \<Rightarrow> bool" where
  "word_at c = (case c of None \<Rightarrow> False | Some x \<Rightarrow> re_word x)"

definition next_cp :: "mstate \<Rightarrow> cp option" where
  "next_cp s = (case rest s of [] \<Rightarrow> None | x # xs \<Rightarrow> Some x)"

type_synonym matcher = "mstate \<Rightarrow> (mstate \<Rightarrow> mstate option) \<Rightarrow> mstate option"

text \<open>Greedy repetition with backtracking: one more round of the body is tried first, and
  the continuation is tried on the rounds made so far when that fails.  \<open>hi\<close> bounds the
  number of rounds, \<open>lo\<close> is the number of rounds still required.\<close>

primrec rep :: "matcher \<Rightarrow> nat \<Rightarrow> nat \<Rightarrow> matcher" where
  "rep ma 0 lo s k = (if lo = 0 then k s else None)"
| "rep ma (Suc hi) lo s k =
     (case ma s (\<lambda>s'. rep ma hi (lo - 1) s' k) of
        Some r \<Rightarrow> Some r
      | None \<Rightarrow> if lo = 0 then k s else None)"

text \<open>The backtracking matcher in continuation-passing style: \<open>rmatch r s k\<close> is the first
  way, in the order of the \<open>re\<close> module, to match \<open>r\<close> at \<open>s\<close> such that \<open>k\<close> accepts
  what follows.  The bodies of the unbounded repetitions in the patterns below match at
  least one character, so the length of the remaining text bounds the number of rounds.\<close>

primrec rmatch :: "rx \<Rightarrow> matcher" where
  "rmatch Eps s k = k s"
| "rmatch (Lit c) s k =
     (case rest s of [] \<Rightarrow> None | x # xs \<Rightarrow> if x = c then k (advance s) else None)"
| "rmatch (Cls items) s k =
     (case rest s of [] \<Rightarrow> None | x # xs \<Rightarrow> if in_class x items then k (advance s) else None)"
| "rmatch (Cat a b) s k = rmatch a s (\<lambda>s'. rmatch b s' k)"
| "rmatch (Alt a b) s k = (case rmatch a s k of Some r \<Rightarrow> Some r | None \<Rightarrow> rmatch b s k)"
| "rmatch (Rep lo hi a) s k =
     rep (rmatch a) (case hi of None \<Rightarrow> length (rest s) | Some h \<Rightarrow> h) lo s k"
| "rmatch (Grp n a) s k =
     rmatch a s (\<lambda>s'. k (s'\<lparr>groups := (n, take (pos s' - pos s) (rest s)) # groups s'\<rparr>))"
| "rmatch WordB s k = (if word_at (prev s) \<noteq> word_at (next_cp s) then k s else None)"

text \<open>A match object: \<open>group(0)\<close> and the numbered groups.\<close>

record match =
  group0 :: pystr
  captures :: "(nat \<times> pystr) list"

definition group :: "match \<Rightarrow> nat \<Rightarrow> pystr option" where
  "group mt n = (if n = 0 then Some (group0 mt) else map_of (captures mt) n)"

definition match_here :: "rx \<Rightarrow> cp option \<Rightarrow> nat \<Rightarrow> pystr \<Rightarrow> match option" where
  "match_here r b i text =
     (case rmatch r \<lparr>prev = b, pos = i, rest = text, groups = []\<rparr> Some of
        None \<Rightarrow> None
      | Some s' \<Rightarrow> Some \<lparr>group0 = take (pos s' - i) text, captures = groups s'\<rparr>)"

text \<open>\<open>re.search\<close>: the match at the leftmost position that has one.\<close>

fun search_from :: "rx \<Rightarrow> cp option \<Rightarrow> nat \<Rightarrow> pystr \<Rightarrow> match option" where
  "search_from r b i [] = match_here r b i []"
| "search_from r b i (x # xs) =
     (case match_here r b i (x # xs) of
        Some mt \<Rightarrow> Some mt
      | None \<Rightarrow> search_from r (Some x) (Suc i) xs)"

definition re_search :: "rx \<Rightarrow> pystr \<Rightarrow> match option" where
  "re_search r text = search_from r None 0 text"

fun cats :: "rx list \<Rightarrow> rx" where
  "cats [] = Eps"
| "cats [r] = r"
| "cats (r # rs) = Cat r (cats rs)"

definition lit :: "char \<Rightarrow> rx" where
  "lit c = Lit (of_char c)"

definition ch :: "char \<Rightarrow> citem" where
  "ch c = Ch (of_char c)"

definition rng :: "char \<Rightarrow> char \<Rightarrow> citem" where
  "rng a b = Rng (of_char a) (of_char b)"

definition star :: "rx \<Rightarrow> rx" where "star r = Rep 0 None r"
definition plus :: "rx \<Rightarrow> rx" where "plus r = Rep 1 None r"
definition opt :: "rx \<Rightarrow> rx" where "opt r = Rep 0 (Some 1) r"

text \<open>\<^verbatim>\<open>(\d+(?:,\d+)?)\s*E|euro?\s*(\d+(?:,\d+)?)\<close> where \<open>E\<close> is the euro sign U+20AC.\<close>

definition number_rx :: rx where
  "number_rx = Cat (plus (Cls [Digit])) (opt (Cat (lit CHR '','') (plus (Cls [Digit]))))"

definition price_rx :: rx where
  "price_rx =
     Alt (cats [Grp 1 number_rx, star (Cls [Space]), Lit 8364])
         (cats [lit CHR ''e'', lit CHR ''u'', lit CHR ''r'', opt (lit CHR ''o''),
                star (Cls [Space]), Grp 2 number_rx])"

text \<open>The address pattern: a capitalised street name of one or more words, a house number,
  a postal code of five digits and a capitalised city name; the letters beyond ASCII are
  \<open>A\<close>, \<open>O\<close>, \<open>U\<close> with diaeresis (196, 214, 220), their small forms (228, 246, 252) and
  the sharp s (223).\<close>

definition upper_cls :: rx where
  "upper_cls = Cls [rng CHR ''A'' CHR ''Z'', Ch 196, Ch 214, Ch 220]"

definition lower_cls :: rx where
  "lower_cls = Cls [rng CHR ''a'' CHR ''z'', Ch 228, Ch 246, Ch 252, Ch 223, ch CHR ''-'']"

definition capword_rx :: rx where
  "capword_rx = Cat upper_cls (plus lower_cls)"

definition address_rx :: rx where
  "address_rx =
     cats [Grp 1 (Cat capword_rx (star (Cat (plus (Cls [Space])) capword_rx))),
           plus (Cls [Space]),
           Grp 2 (Cat (plus (Cls [Digit])) (opt (Cls [rng CHR ''a'' CHR ''z'']))),
           opt (lit CHR '',''), star (Cls [Space]),
           Grp 3 (Rep 5 (Some 5) (Cls [Digit])),
           plus (Cls [Space]),
           Grp 4 capword_rx]"

text \<open>\<^verbatim>\<open>\b[A-Za-z0-9._%+-]+@[A-Za-z0-9.-]+\.[A-Z|a-z]{2,}\b\<close>\<close>

definition email_rx :: rx where
  "email_rx =
     cats [WordB,
           plus (Cls [rng CHR ''A'' CHR ''Z'', rng CHR ''a'' CHR ''z'', rng CHR ''0'' CHR ''9'',
                      ch CHR ''.'', ch CHR ''_'', ch CHR ''%'', ch CHR ''+'', ch CHR ''-'']),
           lit CHR ''@'',
           plus (Cls [rng CHR ''A'' CHR ''Z'', rng CHR ''a'' CHR ''z'', rng CHR ''0'' CHR ''9'',
                      ch CHR ''.'', ch CHR ''-'']),
           lit CHR ''.'',
           Rep 2 None (Cls [rng CHR ''A'' CHR ''Z'', ch CHR ''|'', rng CHR ''a'' CHR ''z'']),
           WordB]"

text \<open>\<^verbatim>\<open>(?:\+49|0)[\s\-]?\d{2,5}[\s\-]?\d{3,8}\<close>\<close>

definition phone_rx :: rx where
  "phone_rx =
     cats [Alt (cats [lit CHR ''+'', lit CHR ''4'', lit CHR ''9'']) (lit CHR ''0''),
           opt (Cls [Space, ch CHR ''-'']),
           Rep 2 (Some 5) (Cls [Digit]),
           opt (Cls [Space, ch CHR ''-'']),
           Rep 3 (Some 8) (Cls [Digit])]"

section \<open>Merge engine (web\_scraper.py)\<close>

text \<open>Substring test \<open>sub in s\<close>.\<close>

fun str_in :: "pystr \<Rightarrow> pystr \<Rightarrow> bool" where
  "str_in sub [] = (sub = [])"
| "str_in sub (x # xs) = (prefix sub (x # xs) \<or> str_in sub xs)"

text \<open>\<open>s.replace(a, b)\<close> for one-character strings \<open>a\<close> and \<open>b\<close>.\<close>

definition replace_cp :: "cp \<Rightarrow> cp \<Rightarrow> pystr \<Rightarrow> pystr" where
  "replace_cp a b s = map (\<lambda>c. if c = a then b else c) s"

text \<open>\<open>float(s)\<close> on the strings that reach it from the price pattern: decimal digits,
  optionally followed by a point and decimal digits.  Any other string is answered with
  \<open>ValueError\<close>; the result is the exact decimal value (no rounding, no overflow to
  infinity).\<close>

definition dec_value :: "pystr \<Rightarrow> nat" where
  "dec_value ds = foldl (\<lambda>a d. 10 * a + (d - 48)) 0 ds"

definition py_float :: "pystr \<Rightarrow> exn + real" where
  "py_float s =
     (let ip = takeWhile (\<lambda>c. c \<noteq> 46) s; r = dropWhile (\<lambda>c. c \<noteq> 46) s in
      if ip = [] \<or> \<not> list_all re_digit ip then Inl ValueError
      else if r = [] then Inr (real (dec_value ip))
      else if tl r = [] \<or> \<not> list_all re_digit (tl r) then Inl ValueError
      else Inr (real (dec_value ip) + real (dec_value (tl r)) / 10 ^ length (tl r)))"

text \<open>A scraped page, the dictionary built by \<open>_scrape_single_url\<close>.  A key may be
  missing from a dictionary: \<open>None\<close> stands for a missing key.  The entries
  \<open>structured_data\<close> and \<open>meta_data\<close> are never read by the merge and are left out.\<close>

record scraped =
  url :: "pystr option"
  title :: "pystr option"
  text_content :: "pystr option"

definition get_text :: "scraped \<Rightarrow> pystr" where
  "get_text sc = (case text_content sc of None \<Rightarrow> [] | Some t \<Rightarrow> t)"

text \<open>Attribute assignments on the nested objects of a record.\<close>

definition set_preis :: "real option \<Rightarrow> EventData \<Rightarrow> EventData" where
  "set_preis x e = e\<lparr>preise := (preise e)\<lparr>preis := x\<rparr>\<rparr>"

definition set_kostenlos :: "bool \<Rightarrow> EventData \<Rightarrow> EventData" where
  "set_kostenlos x e = e\<lparr>preise := (preise e)\<lparr>kostenlos := x\<rparr>\<rparr>"

definition set_adresse :: "pystr option \<Rightarrow> EventData \<Rightarrow> EventData" where
  "set_adresse x e = e\<lparr>ort := (ort e)\<lparr>adresse := x\<rparr>\<rparr>"

definition set_postleitzahl :: "pystr option \<Rightarrow> EventData \<Rightarrow> EventData" where
  "set_postleitzahl x e = e\<lparr>ort := (ort e)\<lparr>postleitzahl := x\<rparr>\<rparr>"

definition set_stadt :: "pystr option \<Rightarrow> EventData \<Rightarrow> EventData" where
  "set_stadt x e = e\<lparr>ort := (ort e)\<lparr>stadt := x\<rparr>\<rparr>"

definition set_email :: "pystr option \<Rightarrow> EventData \<Rightarrow> EventData" where
  "set_email x e = e\<lparr>metadaten := (metadaten e)\<lparr>kontakt := (kontakt (metadaten e))\<lparr>email := x\<rparr>\<rparr>\<rparr>"

definition set_telefon :: "pystr option \<Rightarrow> EventData \<Rightarrow> EventData" where
  "set_telefon x e =
     e\<lparr>metadaten := (metadaten e)\<lparr>kontakt := (kontakt (metadaten e))\<lparr>telefon := x\<rparr>\<rparr>\<rparr>"

definition set_website :: "pystr option \<Rightarrow> EventData \<Rightarrow> EventData" where
  "set_website x e =
     e\<lparr>metadaten := (metadaten e)\<lparr>kontakt := (kontakt (metadaten e))\<lparr>website := x\<rparr>\<rparr>\<rparr>"

definition append_online_link :: "pystr \<Rightarrow> EventData \<Rightarrow> EventData" where
  "append_online_link u e =
     e\<lparr>metadaten := (metadaten e)\<lparr>ticketinfo :=
         (ticketinfo (metadaten e))\<lparr>online_links := online_links (ticketinfo (metadaten e)) @ [u]\<rparr>\<rparr>\<rparr>"

definition append_quelle :: "pystr \<Rightarrow> EventData \<Rightarrow> EventData" where
  "append_quelle u e = e\<lparr>metadaten := (metadaten e)\<lparr>quellen := quellen (metadaten e) @ [u]\<rparr>\<rparr>"

text \<open>
  The merge functions modify the record they are given and return nothing.  Each is
  modelled as a function to the exception raised, if any, and the record as it is when
  the function returns or raises.

  \<open>_merge_event_info\<close>: \<open>price_str\<close> is \<open>group(1) or group(2)\<close>, and calling
  \<open>replace\<close> on it raises \<open>AttributeError\<close> should it be \<open>None\<close>; a
  \<open>ValueError\<close> of \<open>float\<close> is passed over.  The four groups of the address
  pattern take part in every match of it.
\<close>

definition merge_price :: "EventData \<Rightarrow> pystr \<Rightarrow> exn option \<times> EventData" where
  "merge_price e text =
     (if \<not> truthy_float (preis (preise e)) \<and> \<not> kostenlos (preise e) then
        (case re_search price_rx text of
           None \<Rightarrow> (None, e)
         | Some mt \<Rightarrow>
             (case (if truthy_str (group mt 1) then group mt 1 else group mt 2) of
                None \<Rightarrow> (Some AttributeError, e)
              | Some price_str \<Rightarrow>
                  (case py_float (replace_cp 44 46 price_str) of
                     Inl err \<Rightarrow> (None, e)
                   | Inr price \<Rightarrow> (None, set_kostenlos False (set_preis (Some price) e)))))
      else (None, e))"

definition merge_address :: "EventData \<Rightarrow> pystr \<Rightarrow> EventData" where
  "merge_address e text =
     (if \<not> truthy_str (adresse (ort e)) then
        (case re_search address_rx text of
           None \<Rightarrow> e
         | Some mt \<Rightarrow>
             (case (group mt 1, group mt 2, group mt 3, group mt 4) of
                (Some street, Some number, Some plz, Some city) \<Rightarrow>
                  set_stadt (Some city) (set_postleitzahl (Some plz)
                    (set_adresse (Some (street @ S '' '' @ number)) e))
              | _ \<Rightarrow> e))
      else e)"

definition merge_event_info :: "EventData \<Rightarrow> scraped \<Rightarrow> exn option \<times> EventData" where
  "merge_event_info e sc =
     (let text = lower (get_text sc) in
      case merge_price e text of
        (Some err, e1) \<Rightarrow> (Some err, e1)
      | (None, e1) \<Rightarrow> (None, merge_address e1 text))"

text \<open>\<open>_merge_contact_info\<close>: \<open>scraped['url']\<close> raises \<open>KeyError\<close> when the key is
  missing.\<close>

definition merge_email :: "EventData \<Rightarrow> pystr \<Rightarrow> EventData" where
  "merge_email e text =
     (if \<not> truthy_str (email (kontakt (metadaten e))) then
        (case re_search email_rx text of None \<Rightarrow> e | Some mt \<Rightarrow> set_email (group mt 0) e)
      else e)"

definition merge_phone :: "EventData \<Rightarrow> pystr \<Rightarrow> EventData" where
  "merge_phone e text =
     (if \<not> truthy_str (telefon (kontakt (metadaten e))) then
        (case re_search phone_rx text of None \<Rightarrow> e | Some mt \<Rightarrow> set_telefon (group mt 0) e)
      else e)"

definition merge_website :: "EventData \<Rightarrow> scraped \<Rightarrow> exn option \<times> EventData" where
  "merge_website e sc =
     (if \<not> truthy_str (website (kontakt (metadaten e))) then
        (case url sc of None \<Rightarrow> (Some KeyError, e) | Some u \<Rightarrow> (None, set_website (Some u) e))
      else (None, e))"

definition merge_contact_info :: "EventData \<Rightarrow> scraped \<Rightarrow> exn option \<times> EventData" where
  "merge_contact_info e sc =
     (let text = get_text sc in merge_website (merge_phone (merge_email e text) text) sc)"

text \<open>\<open>_merge_ticket_info\<close>: the loop over the ticket keywords stops at the first keyword
  found in the text.\<close>

definition ticket_keywords :: "pystr list" where
  "ticket_keywords = [S ''tickets'', S ''karten'', S ''vorverkauf'', S ''reservierung'',
     S ''buchung'']"

fun ticket_loop :: "pystr list \<Rightarrow> pystr \<Rightarrow> EventData \<Rightarrow> scraped \<Rightarrow> exn option \<times> EventData"
  where
  "ticket_loop [] text e sc = (None, e)"
| "ticket_loop (keyword # kws) text e sc =
     (if str_in keyword text then
        (case url sc of
           None \<Rightarrow> (Some KeyError, e)
         | Some u \<Rightarrow>
             if u \<notin> set (online_links (ticketinfo (metadaten e)))
             then (None, append_online_link u e) else (None, e))
      else ticket_loop kws text e sc)"

definition merge_ticket_info :: "EventData \<Rightarrow> scraped \<Rightarrow> exn option \<times> EventData" where
  "merge_ticket_info e sc = ticket_loop ticket_keywords (lower (get_text sc)) e sc"

definition merge_artist_info :: "EventData \<Rightarrow> scraped \<Rightarrow> exn option \<times> EventData" where
  "merge_artist_info e sc = (None, e)"

definition add_source :: "EventData \<Rightarrow> scraped \<Rightarrow> exn option \<times> EventData" where
  "add_source e sc =
     (case url sc of
        None \<Rightarrow> (Some KeyError, e)
      | Some u \<Rightarrow> if u \<notin> set (quellen (metadaten e)) then (None, append_quelle u e)
                  else (None, e))"

text \<open>Sequencing of two steps: an exception of the first ends the sequence.\<close>

definition and_then ::
  "(exn option \<times> EventData) \<Rightarrow> (EventData \<Rightarrow> exn option \<times> EventData) \<Rightarrow> exn option \<times> EventData"
  where
  "and_then r f = (case r of (Some err, e) \<Rightarrow> (Some err, e) | (None, e) \<Rightarrow> f e)"

text \<open>The body of the loop of \<open>_merge_scraped_data\<close>; the \<open>except\<close> clause logs the
  exception and the loop goes on with the record as it is.\<close>

definition merge_body :: "EventData \<Rightarrow> scraped \<Rightarrow> exn option \<times> EventData" where
  "merge_body e sc =
     and_then (and_then (and_then (and_then (merge_event_info e sc)
       (\<lambda>e. merge_contact_info e sc)) (\<lambda>e. merge_ticket_info e sc))
       (\<lambda>e. merge_artist_info e sc)) (\<lambda>e. add_source e sc)"

definition merge_one :: "EventData \<Rightarrow> scraped \<Rightarrow> EventData" where
  "merge_one e sc = snd (merge_body e sc)"

text \<open>\<open>_merge_scraped_data\<close> on the value of the record; the deep copy of a value is the
  value.\<close>

definition add_source_bonus :: "nat \<Rightarrow> EventData \<Rightarrow> EventData" where
  "add_source_bonus n enhanced =
     (let original_confidence = vertrauenswuerdigkeit (metadaten enhanced);
          source_bonus = min 0.2 (real n * 0.05)
      in set_confidence (min 1.0 (original_confidence + source_bonus)) enhanced)"

definition merge_scraped_data :: "EventData \<Rightarrow> scraped list \<Rightarrow> EventData" where
  "merge_scraped_data event_data scraped_data =
     (let enhanced = foldl merge_one event_data scraped_data in
      if scraped_data \<noteq> [] then add_source_bonus (length scraped_data) enhanced
      else enhanced)"

text \<open>A run of the two passes of the pipeline that touch the confidence score.\<close>

datatype pass = Enrich "scraped list" | Quality

fun run_pass :: "EventData \<Rightarrow> pass \<Rightarrow> EventData" where
  "run_pass e (Enrich scraped_data) = merge_scraped_data e scraped_data"
| "run_pass e Quality = assess_data_quality e"

definition run_passes :: "EventData \<Rightarrow> pass list \<Rightarrow> EventData" where
  "run_passes e ps = foldl run_pass e ps"

section \<open>Example data\<close>

text \<open>The record and the page of the enrichment scenario of the specification.\<close>

definition rock_concert :: EventData where
  "rock_concert = set_confidence 0.85 (new_EventData (S ''Rock Concert''))"

definition test_page :: scraped where
  "test_page = \<lparr>url = Some (S ''https://test.de''), title = None,
     text_content =
       Some (S ''Eintritt 35,50'' @ [8364] @ S '', Tel: +49 89 1234567, info@test.de'')\<rparr>"

section \<open>Auxiliary notions for the proofs\<close>

text \<open>A pattern without capturing group, and the least number of characters a pattern
  consumes.\<close>

fun groupless :: "rx \<Rightarrow> bool" where
  "groupless Eps = True"
| "groupless (Lit c) = True"
| "groupless (Cls items) = True"
| "groupless (Cat a b) = (groupless a \<and> groupless b)"
| "groupless (Alt a b) = (groupless a \<and> groupless b)"
| "groupless (Rep lo hi a) = groupless a"
| "groupless (Grp n a) = False"
| "groupless WordB = True"

fun min_len :: "rx \<Rightarrow> nat" where
  "min_len Eps = 0"
| "min_len (Lit c) = 1"
| "min_len (Cls items) = 1"
| "min_len (Cat a b) = min_len a + min_len b"
| "min_len (Alt a b) = min (min_len a) (min_len b)"
| "min_len (Rep lo hi a) = lo * min_len a"
| "min_len (Grp n a) = min_len a"
| "min_len WordB = 0"

text \<open>\<open>moved s s' n\<close>: the state \<open>s'\<close> lies at least \<open>n\<close> characters after \<open>s\<close> in the
  same text, with the same groups.\<close>

definition moved :: "mstate \<Rightarrow> mstate \<Rightarrow> nat \<Rightarrow> bool" where
  "moved s s' n = (groups s' = groups s \<and> pos s + n \<le> pos s'
     \<and> pos s' + length (rest s') = pos s + length (rest s))"

text \<open>The fields written by the fill rules, grouped by rule, and the rules as functions
  on these fields alone: \<open>fill is_empty found v sc\<close> is the value of a field group after a
  rule that writes \<open>found sc\<close>, if there is one, when \<open>is_empty v\<close> holds.\<close>

definition price_part :: "EventData \<Rightarrow> real option \<times> bool" where
  "price_part e = (preis (preise e), kostenlos (preise e))"

definition address_part :: "EventData \<Rightarrow> pystr option \<times> pystr option \<times> pystr option" where
  "address_part e = (adresse (ort e), postleitzahl (ort e), stadt (ort e))"

definition email_part :: "EventData \<Rightarrow> pystr option" where
  "email_part e = email (kontakt (metadaten e))"

definition phone_part :: "EventData \<Rightarrow> pystr option" where
  "phone_part e = telefon (kontakt (metadaten e))"

definition website_part :: "EventData \<Rightarrow> pystr option" where
  "website_part e = website (kontakt (metadaten e))"

definition price_empty :: "real option \<times> bool \<Rightarrow> bool" where
  "price_empty v = (\<not> truthy_float (fst v) \<and> \<not> snd v)"

definition address_empty :: "pystr option \<times> pystr option \<times> pystr option \<Rightarrow> bool" where
  "address_empty v = (\<not> truthy_str (fst v))"

definition str_empty :: "pystr option \<Rightarrow> bool" where
  "str_empty v = (\<not> truthy_str v)"

definition fill :: "('v \<Rightarrow> bool) \<Rightarrow> ('s \<Rightarrow> 'v option) \<Rightarrow> 'v \<Rightarrow> 's \<Rightarrow> 'v" where
  "fill is_empty found v sc =
     (if is_empty v then (case found sc of None \<Rightarrow> v | Some w \<Rightarrow> w) else v)"

definition found_price :: "scraped \<Rightarrow> (real option \<times> bool) option" where
  "found_price sc =
     (case re_search price_rx (lower (get_text sc)) of
        None \<Rightarrow> None
      | Some mt \<Rightarrow>
          (case (if truthy_str (group mt 1) then group mt 1 else group mt 2) of
             None \<Rightarrow> None
           | Some price_str \<Rightarrow>
               (case py_float (replace_cp 44 46 price_str) of
                  Inl err \<Rightarrow> None
                | Inr price \<Rightarrow> Some (Some price, False))))"

definition found_address ::
  "scraped \<Rightarrow> (pystr option \<times> pystr option \<times> pystr option) option" where
  "found_address sc =
     (case re_search address_rx (lower (get_text sc)) of
        None \<Rightarrow> None
      | Some mt \<Rightarrow>
          (case (group mt 1, group mt 2, group mt 3, group mt 4) of
             (Some street, Some number, Some plz, Some city) \<Rightarrow>
               Some (Some (street @ S '' '' @ number), Some plz, Some city)
           | _ \<Rightarrow> None))"

definition found_email :: "scraped \<Rightarrow> pystr option option" where
  "found_email sc =
     (case re_search email_rx (get_text sc) of None \<Rightarrow> None | Some mt \<Rightarrow> Some (group mt 0))"

definition found_phone :: "scraped \<Rightarrow> pystr option option" where
  "found_phone sc =
     (case re_search phone_rx (get_text sc) of None \<Rightarrow> None | Some mt \<Rightarrow> Some (group mt 0))"

definition found_website :: "scraped \<Rightarrow> pystr option option" where
  "found_website sc = (case url sc of None \<Rightarrow> None | Some u \<Rightarrow> Some (Some u))"

text \<open>The rules of one page that write these fields: \<open>_merge_event_info\<close> followed by
  \<open>_merge_contact_info\<close>.\<close>

definition rules :: "EventData \<Rightarrow> scraped \<Rightarrow> EventData" where
  "rules e sc = snd (merge_contact_info (snd (merge_event_info e sc)) sc)"

text \<open>A record with a price of zero that is not marked free, a page that names a price, and
  a record with every field of the fill rules set.\<close>

definition zero_price_concert :: EventData where
  "zero_price_concert = set_preis (Some 0) rock_concert"

definition euro_page :: scraped where
  "euro_page = \<lparr>url = Some (S ''https://test.de''), title = None,
     text_content = Some (S ''euro 10'')\<rparr>"

definition full_concert :: EventData where
  "full_concert =
     set_website (Some (S ''https://venue.de'')) (set_telefon (Some (S ''030 1234567''))
       (set_email (Some (S ''box@venue.de'')) (set_stadt (Some (S ''Berlin''))
         (set_postleitzahl (Some (S ''10115'')) (set_adresse (Some (S ''Teststr. 123''))
           (set_preis (Some 25.5) rock_concert))))))"

section \<open>URL validation (qr\_detector.py)\<close>

text \<open>
  \<open>QRCodeDetector.validate_german_urls\<close>.  The validator \<open>validators.url\<close> belongs to a
  library outside the repository and is a parameter \<open>valid\<close>: the truth value of its
  result on a string.
\<close>

definition german_domains :: "pystr list" where
  "german_domains = [S ''.de'', S ''.at'', S ''.ch'']"

definition is_german :: "pystr \<Rightarrow> bool" where
  "is_german x = list_ex (\<lambda>domain. str_in domain (lower x)) german_domains"

definition has_scheme :: "pystr \<Rightarrow> bool" where
  "has_scheme x = (prefix (S ''http://'') x \<or> prefix (S ''https://'') x)"

text \<open>The body of the loop over the candidates; \<open>valid_urls\<close> is the list built so far.\<close>

definition validate_step :: "(pystr \<Rightarrow> bool) \<Rightarrow> pystr list \<Rightarrow> pystr \<Rightarrow> pystr list" where
  "validate_step valid valid_urls x =
     (if valid x then valid_urls @ [x]
      else if is_german x then
        (if \<not> has_scheme x then
           (let fixed_url = S ''https://'' @ x in
            if valid fixed_url then valid_urls @ [fixed_url] else valid_urls)
         else valid_urls)
      else valid_urls)"

text \<open>\<open>list.sort\<close> is stable; the key is a truth value, and \<open>False\<close> sorts before
  \<open>True\<close>.\<close>

definition validate_german_urls :: "(pystr \<Rightarrow> bool) \<Rightarrow> pystr list \<Rightarrow> pystr list" where
  "validate_german_urls valid urls =
     sort_key (\<lambda>x. \<not> is_german x) (foldl (validate_step valid) [] urls)"

text \<open>The acceptance condition in the words of the specification, the form in which an
  accepted candidate is returned, and the condition with the test of the source for a
  scheme that is already there.\<close>

definition accepts :: "(pystr \<Rightarrow> bool) \<Rightarrow> pystr \<Rightarrow> bool" where
  "accepts valid x = (valid x \<or> (is_german x \<and> valid (S ''https://'' @ x)))"

definition accepts_unprefixed :: "(pystr \<Rightarrow> bool) \<Rightarrow> pystr \<Rightarrow> bool" where
  "accepts_unprefixed valid x =
     (valid x \<or> (is_german x \<and> \<not> has_scheme x \<and> valid (S ''https://'' @ x)))"

definition accepted_form :: "(pystr \<Rightarrow> bool) \<Rightarrow> pystr \<Rightarrow> pystr" where
  "accepted_form valid x = (if valid x then x else S ''https://'' @ x)"

text \<open>A validator for the examples: a scheme followed by a non-empty remainder that does
  not begin with a scheme and holds a dot.\<close>

definition simple_valid :: "pystr \<Rightarrow> bool" where
  "simple_valid x =
     ((prefix (S ''https://'') x \<and> \<not> has_scheme (drop 8 x) \<and> str_in (S ''.'') (drop 8 x))
      \<or> (prefix (S ''http://'') x \<and> \<not> has_scheme (drop 7 x) \<and> str_in (S ''.'') (drop 7 x)))"

definition candidate_urls :: "pystr list" where
  "candidate_urls = [S ''https://example.com'', S ''https://events.de'', S ''www.tickets.de'',
     S ''invalid-url'', S ''https://venue.at'']"

section \<open>Response parser (claude\_client.py)\<close>

text \<open>The value of a decoded JSON text; an object is a dictionary, kept as an association
  list.\<close>

datatype json = JNull | JBool bool | JNum real | JStr pystr | JArr "json list"
  | JObj "(pystr \<times> json) list"

fun json_truthy :: "json \<Rightarrow> bool" where
  "json_truthy JNull = False"
| "json_truthy (JBool b) = b"
| "json_truthy (JNum x) = (x \<noteq> 0)"
| "json_truthy (JStr s) = (s \<noteq> [])"
| "json_truthy (JArr xs) = (xs \<noteq> [])"
| "json_truthy (JObj kvs) = (kvs \<noteq> [])"

text \<open>\<open>d[k] = v\<close>, \<open>k in d\<close> and \<open>d[k]\<close> for a string \<open>k\<close> on a decoded value \<open>d\<close>.\<close>

fun setitem :: "json \<Rightarrow> pystr \<Rightarrow> json \<Rightarrow> exn + json" where
  "setitem (JObj kvs) k v = Inr (JObj (AList.update k v kvs))"
| "setitem d k v = Inl TypeError"

fun contains_key :: "pystr \<Rightarrow> json \<Rightarrow> exn + bool" where
  "contains_key k (JObj kvs) = Inr (map_of kvs k \<noteq> None)"
| "contains_key k (JArr xs) = Inr (List.member xs (JStr k))"
| "contains_key k (JStr s) = Inr (str_in k s)"
| "contains_key k d = Inl TypeError"

fun getitem :: "json \<Rightarrow> pystr \<Rightarrow> exn + json" where
  "getitem (JObj kvs) k = (case map_of kvs k of None \<Rightarrow> Inl KeyError | Some v \<Rightarrow> Inr v)"
| "getitem d k = Inl TypeError"

text \<open>\<open>s.find(c)\<close> and \<open>s.rfind(c)\<close> for a character \<open>c\<close>: the first and the last index
  of \<open>c\<close>, or \<open>-1\<close>; \<open>s[a:b]\<close> for indices that are not negative.\<close>

fun find_cp :: "cp \<Rightarrow> pystr \<Rightarrow> int" where
  "find_cp c [] = - 1"
| "find_cp c (x # xs) =
     (if x = c then 0 else (let r = find_cp c xs in if r = - 1 then - 1 else r + 1))"

definition rfind_cp :: "cp \<Rightarrow> pystr \<Rightarrow> int" where
  "rfind_cp c s =
     (let r = find_cp c (rev s) in if r = - 1 then - 1 else int (length s) - 1 - r)"

definition slice :: "pystr \<Rightarrow> int \<Rightarrow> int \<Rightarrow> pystr" where
  "slice s a b = take (nat b - nat a) (drop (nat a) s)"

definition truthy_list :: "'a list option \<Rightarrow> bool" where
  "truthy_list v = (case v of None \<Rightarrow> False | Some xs \<Rightarrow> xs \<noteq> [])"

definition bind_exn :: "exn + 'a \<Rightarrow> ('a \<Rightarrow> exn + 'b) \<Rightarrow> exn + 'b" where
  "bind_exn r f = (case r of Inl err \<Rightarrow> Inl err | Inr x \<Rightarrow> f x)"

definition name_key :: pystr where
  "name_key = S ''veranstaltungsname''"

text \<open>
  \<open>ClaudeImageAnalyzer._parse_response\<close>.  The JSON decoder \<open>json.loads\<close> and the
  construction of the record by \<open>EventData.from_dict\<close> (the validation of pydantic) are
  parameters; each returns a value or raises.  \<open>parse_body\<close> is the block under
  \<open>try\<close>, \<open>parse_response\<close> the function with its two \<open>except\<close> clauses, both of
  which return \<open>None\<close>.
\<close>

definition json_text :: "pystr \<Rightarrow> pystr" where
  "json_text response_text =
     slice response_text (find_cp 123 response_text) (rfind_cp 125 response_text + 1)"

definition parse_body ::
  "(pystr \<Rightarrow> exn + json) \<Rightarrow> (json \<Rightarrow> exn + EventData) \<Rightarrow> pystr \<Rightarrow> pystr list option \<Rightarrow>
   pystr list option \<Rightarrow> exn + EventData option" where
  "parse_body loads from_dict response_text qr_codes urls =
     (let json_start = find_cp 123 response_text;
          json_end = rfind_cp 125 response_text + 1
      in if json_start = - 1 \<or> json_end = 0 then Inr None
         else
           bind_exn (loads (slice response_text json_start json_end)) (\<lambda>d0.
           bind_exn (if truthy_list qr_codes
                     then setitem d0 (S ''erkannte_qr_codes'') (JArr (map JStr (the qr_codes)))
                     else Inr d0) (\<lambda>d1.
           bind_exn (if truthy_list urls
                     then setitem d1 (S ''erkannte_links'') (JArr (map JStr (the urls)))
                     else Inr d1) (\<lambda>event_dict.
           bind_exn (contains_key name_key event_dict) (\<lambda>has_name.
           if \<not> has_name then Inr None
           else
             bind_exn (getitem event_dict name_key) (\<lambda>v.
             if \<not> json_truthy v then Inr None
             else bind_exn (from_dict event_dict) (\<lambda>event_data. Inr (Some event_data))))))))"

definition parse_response ::
  "(pystr \<Rightarrow> exn + json) \<Rightarrow> (json \<Rightarrow> exn + EventData) \<Rightarrow> pystr \<Rightarrow> pystr list option \<Rightarrow>
   pystr list option \<Rightarrow> EventData option" where
  "parse_response loads from_dict response_text qr_codes urls =
     (case parse_body loads from_dict response_text qr_codes urls of
        Inl err \<Rightarrow> None
      | Inr r \<Rightarrow> r)"

text \<open>The first and the last position of a character in a string, and the field
  \<open>veranstaltungsname\<close> of a decoded value, if it is an object and has it.\<close>

definition first_index :: "cp \<Rightarrow> pystr \<Rightarrow> nat \<Rightarrow> bool" where
  "first_index c s i = (i < length s \<and> s ! i = c \<and> c \<notin> set (take i s))"

definition last_index :: "cp \<Rightarrow> pystr \<Rightarrow> nat \<Rightarrow> bool" where
  "last_index c s j = (j < length s \<and> s ! j = c \<and> c \<notin> set (drop (Suc j) s))"

definition event_name :: "json \<Rightarrow> json option" where
  "event_name d = (case d of JObj kvs \<Rightarrow> map_of kvs name_key | _ \<Rightarrow> None)"

definition has_event_name :: "json \<Rightarrow> bool" where
  "has_event_name d = (case event_name d of None \<Rightarrow> False | Some v \<Rightarrow> json_truthy v)"

text \<open>The dictionary handed to \<open>from_dict\<close>: the decoded object with the detected codes
  and links attached.\<close>

definition attach :: "pystr \<Rightarrow> pystr list option \<Rightarrow> (pystr \<times> json) list \<Rightarrow> (pystr \<times> json) list"
  where
  "attach k v kvs =
     (if truthy_list v then AList.update k (JArr (map JStr (the v))) kvs else kvs)"

text \<open>A decoder and a record constructor for the examples.\<close>

definition sample_loads :: "pystr \<Rightarrow> exn + json" where
  "sample_loads s =
     (if s = S ''{name}'' then Inr (JObj [(name_key, JStr (S ''Test Event''))])
      else if s = S ''{}'' then Inr (JObj [])
      else Inl JSONDecodeError)"

definition sample_from_dict :: "json \<Rightarrow> exn + EventData" where
  "sample_from_dict d =
     (case event_name d of Some (JStr n) \<Rightarrow> Inr (new_EventData n) | _ \<Rightarrow> Inl ValidationError)"

text \<open>The part of the block under \<open>try\<close> that follows the decoding.\<close>

definition after_loads ::
  "(json \<Rightarrow> exn + EventData) \<Rightarrow> pystr list option \<Rightarrow> pystr list option \<Rightarrow> json \<Rightarrow>
   exn + EventData option" where
  "after_loads from_dict qr_codes urls d0 =
           bind_exn (if truthy_list qr_codes
                     then setitem d0 (S ''erkannte_qr_codes'') (JArr (map JStr (the qr_codes)))
                     else Inr d0) (\<lambda>d1.
           bind_exn (if truthy_list urls
                     then setitem d1 (S ''erkannte_links'') (JArr (map JStr (the urls)))
                     else Inr d1) (\<lambda>event_dict.
           bind_exn (contains_key name_key event_dict) (\<lambda>has_name.
           if \<not> has_name then Inr None
           else
             bind_exn (getitem event_dict name_key) (\<lambda>v.
             if \<not> json_truthy v then Inr None
             else bind_exn (from_dict event_dict) (\<lambda>event_data. Inr (Some event_data))))))"

section \<open>Objects and references\<close>

text \<open>
  The records above are the values held by the objects of the program.  Where a claim
  depends on which object is written, the objects themselves are modelled: a heap is a list
  of cells, a reference is an index into it, and a model instance that has other model
  instances or lists as attributes holds references to them.  The elements of the list of
  artists are held by value; no function of the pipeline writes to them.
\<close>

type_synonym ref = nat

record event_obj =
  o_veranstaltungsname :: pystr
  o_ort :: ref
  o_termine :: ref
  o_preise :: ref
  o_beschreibung :: "pystr option"
  o_kategorie :: EventKategorie
  o_metadaten :: ref
  o_erkannte_links :: ref
  o_erkannte_qr_codes :: ref
  o_sprache :: pystr

record meta_obj =
  o_kuenstler :: ref
  o_ticketinfo :: ref
  o_kontakt :: ref
  o_quellen :: ref
  o_vertrauenswuerdigkeit :: real

record ticket_obj =
  o_verkaufsstellen :: ref
  o_online_links :: ref
  o_ticket_telefon :: "pystr option"

datatype cell = EventC event_obj | OrtC Ort | TermineC Termine | PreiseC Preise
  | MetaC meta_obj | TicketC ticket_obj | KontaktC Kontakt | StrListC "pystr list"
  | KuenstlerListC "Kuenstler list"

type_synonym heap = "cell list"

definition cell_at :: "heap \<Rightarrow> ref \<Rightarrow> cell option" where
  "cell_at h r = (if r < length h then Some (h ! r) else None)"

fun the_event :: "cell \<Rightarrow> event_obj option" where
  "the_event (EventC x) = Some x" | "the_event c = None"

fun the_ort :: "cell \<Rightarrow> Ort option" where
  "the_ort (OrtC x) = Some x" | "the_ort c = None"

fun the_termine :: "cell \<Rightarrow> Termine option" where
  "the_termine (TermineC x) = Some x" | "the_termine c = None"

fun the_preise :: "cell \<Rightarrow> Preise option" where
  "the_preise (PreiseC x) = Some x" | "the_preise c = None"

fun the_meta :: "cell \<Rightarrow> meta_obj option" where
  "the_meta (MetaC x) = Some x" | "the_meta c = None"

fun the_ticket :: "cell \<Rightarrow> ticket_obj option" where
  "the_ticket (TicketC x) = Some x" | "the_ticket c = None"

fun the_kontakt :: "cell \<Rightarrow> Kontakt option" where
  "the_kontakt (KontaktC x) = Some x" | "the_kontakt c = None"

fun the_strlist :: "cell \<Rightarrow> pystr list option" where
  "the_strlist (StrListC x) = Some x" | "the_strlist c = None"

fun the_kuenstler :: "cell \<Rightarrow> Kuenstler list option" where
  "the_kuenstler (KuenstlerListC x) = Some x" | "the_kuenstler c = None"

definition deref :: "(cell \<Rightarrow> 'a option) \<Rightarrow> heap \<Rightarrow> ref \<Rightarrow> 'a option" where
  "deref as h r = Option.bind (cell_at h r) as"

text \<open>The value of the record whose instance is at \<open>p\<close>: every attribute is followed to
  the object it refers to.  The result is \<open>None\<close> when a reference leads nowhere or to an
  object of another class.\<close>

definition load_ticket :: "heap \<Rightarrow> ref \<Rightarrow> TicketInfo option" where
  "load_ticket h r =
     Option.bind (deref the_ticket h r) (\<lambda>t.
     Option.bind (deref the_strlist h (o_verkaufsstellen t)) (\<lambda>vs.
     Option.bind (deref the_strlist h (o_online_links t)) (\<lambda>ls.
     Some \<lparr>verkaufsstellen = vs, online_links = ls, ticket_telefon = o_ticket_telefon t\<rparr>)))"

definition load_meta :: "heap \<Rightarrow> ref \<Rightarrow> Metadaten option" where
  "load_meta h r =
     Option.bind (deref the_meta h r) (\<lambda>m.
     Option.bind (deref the_kuenstler h (o_kuenstler m)) (\<lambda>ks.
     Option.bind (load_ticket h (o_ticketinfo m)) (\<lambda>t.
     Option.bind (deref the_kontakt h (o_kontakt m)) (\<lambda>k.
     Option.bind (deref the_strlist h (o_quellen m)) (\<lambda>qs.
     Some \<lparr>kuenstler = ks, ticketinfo = t, kontakt = k, quellen = qs,
           vertrauenswuerdigkeit = o_vertrauenswuerdigkeit m\<rparr>)))))"

definition load :: "heap \<Rightarrow> ref \<Rightarrow> EventData option" where
  "load h p =
     Option.bind (deref the_event h p) (\<lambda>ev.
     Option.bind (deref the_ort h (o_ort ev)) (\<lambda>ort_v.
     Option.bind (deref the_termine h (o_termine ev)) (\<lambda>termine_v.
     Option.bind (deref the_preise h (o_preise ev)) (\<lambda>preise_v.
     Option.bind (load_meta h (o_metadaten ev)) (\<lambda>meta_v.
     Option.bind (deref the_strlist h (o_erkannte_links ev)) (\<lambda>links.
     Option.bind (deref the_strlist h (o_erkannte_qr_codes ev)) (\<lambda>qrs.
     Some \<lparr>veranstaltungsname = o_veranstaltungsname ev, ort = ort_v, termine = termine_v,
           preise = preise_v, beschreibung = o_beschreibung ev, kategorie = o_kategorie ev,
           metadaten = meta_v, erkannte_links = links, erkannte_qr_codes = qrs,
           sprache = o_sprache ev\<rparr>)))))))"

text \<open>The objects of a new instance with value \<open>v\<close>, allocated from address \<open>n\<close> on: the
  instance itself, then the objects it refers to.\<close>

definition record_cells :: "ref \<Rightarrow> EventData \<Rightarrow> cell list" where
  "record_cells n v =
     [EventC \<lparr>o_veranstaltungsname = veranstaltungsname v, o_ort = n + 1, o_termine = n + 2,
        o_preise = n + 3, o_beschreibung = beschreibung v, o_kategorie = kategorie v,
        o_metadaten = n + 4, o_erkannte_links = n + 5, o_erkannte_qr_codes = n + 6,
        o_sprache = sprache v\<rparr>,
      OrtC (ort v), TermineC (termine v), PreiseC (preise v),
      MetaC \<lparr>o_kuenstler = n + 7, o_ticketinfo = n + 8, o_kontakt = n + 9, o_quellen = n + 10,
        o_vertrauenswuerdigkeit = vertrauenswuerdigkeit (metadaten v)\<rparr>,
      StrListC (erkannte_links v), StrListC (erkannte_qr_codes v),
      KuenstlerListC (kuenstler (metadaten v)),
      TicketC \<lparr>o_verkaufsstellen = n + 11, o_online_links = n + 12,
        o_ticket_telefon = ticket_telefon (ticketinfo (metadaten v))\<rparr>,
      KontaktC (kontakt (metadaten v)), StrListC (quellen (metadaten v)),
      StrListC (verkaufsstellen (ticketinfo (metadaten v))),
      StrListC (online_links (ticketinfo (metadaten v)))]"

definition new_record :: "heap \<Rightarrow> EventData \<Rightarrow> heap \<times> ref" where
  "new_record h v = (h @ record_cells (length h) v, length h)"

text \<open>\<open>event_data.copy(deep=True)\<close>: a new instance with new objects for all it refers
  to, holding the same values.\<close>

definition deep_copy :: "heap \<Rightarrow> ref \<Rightarrow> (heap \<times> ref) option" where
  "deep_copy h p = (case load h p of None \<Rightarrow> None | Some v \<Rightarrow> Some (new_record h v))"

text \<open>
  Writing to the attributes of the instance at \<open>q\<close> and of the objects it refers to
  changes the cells of these objects and no other cell.  \<open>write_back h q v\<close> gives each of
  them the value it has in \<open>v\<close>; the references held by the objects stay as they are.
\<close>

definition write_back :: "heap \<Rightarrow> ref \<Rightarrow> EventData \<Rightarrow> heap" where
  "write_back h q v =
     (case deref the_event h q of None \<Rightarrow> h | Some ev \<Rightarrow>
      case deref the_meta h (o_metadaten ev) of None \<Rightarrow> h | Some m \<Rightarrow>
      case deref the_ticket h (o_ticketinfo m) of None \<Rightarrow> h | Some t \<Rightarrow>
        h[q := EventC (ev\<lparr>o_veranstaltungsname := veranstaltungsname v,
                o_beschreibung := beschreibung v, o_kategorie := kategorie v,
                o_sprache := sprache v\<rparr>),
          o_ort ev := OrtC (ort v),
          o_termine ev := TermineC (termine v),
          o_preise ev := PreiseC (preise v),
          o_metadaten ev :=
            MetaC (m\<lparr>o_vertrauenswuerdigkeit := vertrauenswuerdigkeit (metadaten v)\<rparr>),
          o_erkannte_links ev := StrListC (erkannte_links v),
          o_erkannte_qr_codes ev := StrListC (erkannte_qr_codes v),
          o_kuenstler m := KuenstlerListC (kuenstler (metadaten v)),
          o_ticketinfo m :=
            TicketC (t\<lparr>o_ticket_telefon := ticket_telefon (ticketinfo (metadaten v))\<rparr>),
          o_kontakt m := KontaktC (kontakt (metadaten v)),
          o_quellen m := StrListC (quellen (metadaten v)),
          o_verkaufsstellen t := StrListC (verkaufsstellen (ticketinfo (metadaten v))),
          o_online_links t := StrListC (online_links (ticketinfo (metadaten v)))])"

text \<open>A function that modifies the record it is given, run on the instance at \<open>q\<close>.\<close>

definition modify :: "heap \<Rightarrow> ref \<Rightarrow> (EventData \<Rightarrow> EventData) \<Rightarrow> heap" where
  "modify h q f = (case load h q of None \<Rightarrow> h | Some v \<Rightarrow> write_back h q (f v))"

text \<open>\<open>_merge_scraped_data\<close> on the heap: the rules and the confidence update run on the
  copy \<open>enhanced\<close>, which is returned.  The result is \<open>None\<close> when \<open>event_data\<close> is not
  a reference to a record.\<close>

definition merge_scraped_data_h ::
  "heap \<Rightarrow> ref \<Rightarrow> scraped list \<Rightarrow> (heap \<times> ref) option" where
  "merge_scraped_data_h h event_data scraped_data =
     (case deep_copy h event_data of
        None \<Rightarrow> None
      | Some (h1, enhanced) \<Rightarrow>
          (let h2 = foldl (\<lambda>h' d. modify h' enhanced (\<lambda>e. merge_one e d)) h1 scraped_data;
               h3 = (if scraped_data \<noteq> []
                     then modify h2 enhanced (add_source_bonus (length scraped_data))
                     else h2)
           in Some (h3, enhanced)))"

section \<open>The enrichment phase (analyzer.py, web\_scraper.py)\<close>

text \<open>
  What the enrichment phase meets outside the program: the construction and the entry of
  the \<open>WebScraper\<close> context may raise, \<open>_scrape_urls\<close> returns the pages that could be
  fetched or raises, and the exit of the context may raise.
\<close>

record env =
  enter_error :: "exn option"
  scrape_urls :: "pystr list \<Rightarrow> exn + scraped list"
  exit_error :: "exn option"

text \<open>\<open>WebScraper.enhance_event_data\<close>: the heap after the call, and the reference
  returned or the exception raised.\<close>

definition enhance_event_data ::
  "env \<Rightarrow> heap \<Rightarrow> ref \<Rightarrow> pystr list \<Rightarrow> heap \<times> (exn + ref)" where
  "enhance_event_data en h event_data urls =
     (if urls = [] then (h, Inr event_data)
      else
        (case scrape_urls en urls of
           Inl err \<Rightarrow> (h, Inl err)
         | Inr scraped_data \<Rightarrow>
             (case merge_scraped_data_h h event_data scraped_data of
                None \<Rightarrow> (h, Inl AttributeError)
              | Some (h', enhanced_data) \<Rightarrow> (h', Inr enhanced_data))))"

text \<open>\<open>PosterAnalyzer._enhance_with_web_scraping\<close>: the \<open>except\<close> clause returns
  \<open>event_data\<close>, also when the exit of the context raises after the body has returned.\<close>

definition enhance_with_web_scraping :: "env \<Rightarrow> heap \<Rightarrow> ref \<Rightarrow> pystr list \<Rightarrow> heap \<times> ref" where
  "enhance_with_web_scraping en h event_data urls =
     (case enter_error en of
        Some err \<Rightarrow> (h, event_data)
      | None \<Rightarrow>
          (case enhance_event_data en h event_data urls of
             (h', Inl err) \<Rightarrow> (h', event_data)
           | (h', Inr enhanced_data) \<Rightarrow>
               (case exit_error en of
                  Some err \<Rightarrow> (h', event_data)
                | None \<Rightarrow> (h', enhanced_data))))"

text \<open>The enrichment phase raises: an exception reaches the \<open>except\<close> clause.\<close>

definition phase_raises :: "env \<Rightarrow> heap \<Rightarrow> ref \<Rightarrow> pystr list \<Rightarrow> bool" where
  "phase_raises en h event_data urls =
     (enter_error en \<noteq> None
      \<or> (case snd (enhance_event_data en h event_data urls) of Inl err \<Rightarrow> True | Inr r \<Rightarrow> False)
      \<or> exit_error en \<noteq> None)"

text \<open>A heap that holds the record of the scenario at address 0, and an environment in
  which the page is fetched and the exit of the context fails.\<close>

definition rock_heap :: heap where
  "rock_heap = fst (new_record [] rock_concert)"

definition failing_exit :: env where
  "failing_exit = \<lparr>enter_error = None, scrape_urls = (\<lambda>urls. Inr [test_page]),
     exit_error = Some OtherError\<rparr>"



section \<open>Properties of the quality pass\<close>

lemma kategorie_value_andere: "(kategorie_value k = ''andere'') = (k = ANDERE)"
  by (cases k) simp_all

lemma kategorie_value_nonempty: "kategorie_value k \<noteq> []"
  by (cases k) simp_all

lemma length_quality_factors: "length (quality_factors e) = completeness_count e"
  by (simp add: quality_factors_def completeness_count_def completeness_factors_def
      kategorie_value_andere kategorie_value_nonempty)

lemma quality_score_le_1: "quality_score e \<le> 1"
proof -
  have "length (quality_factors e) \<le> 7"
    by (simp add: quality_factors_def)
  then show ?thesis by (simp add: quality_score_def)
qed

lemma quality_score_ge_0: "0 \<le> quality_score e"
  by (simp add: quality_score_def)

lemma confidence_set_confidence: "confidence (set_confidence x e) = x"
  by (simp add: confidence_def set_confidence_def)

lemma confidence_assess:
  "confidence (assess_data_quality e) =
     (if quality_score e > confidence e then (confidence e + quality_score e) / 2
      else confidence e)"
  using quality_score_le_1 [of e]
  by (auto simp: assess_data_quality_def confidence_def set_confidence_def min_def)

text \<open>
  Claim C4.  The quality pass counts the \<open>k\<close> completeness factors that hold, the quality
  score is \<open>k / 7\<close>, the confidence becomes the average of score and confidence exactly
  when the score exceeds the confidence and is left as it is otherwise, no other field
  changes, and a record with a name but without location, start time, pricing, contact,
  QR/URL evidence and with the default category has score \<open>1 / 7\<close>.
\<close>

theorem assess_data_quality_spec:
  "confidence (assess_data_quality e) =
     (if real (completeness_count e) / 7 > confidence e
      then (confidence e + real (completeness_count e) / 7) / 2 else confidence e)
   \<and> quality_score e = real (completeness_count e) / 7
   \<and> assess_data_quality e = set_confidence (confidence (assess_data_quality e)) e
   \<and> (veranstaltungsname e \<noteq> [] \<and> veranstaltungsort (ort e) = None \<and> adresse (ort e) = None
       \<and> beginn (termine e) = None \<and> \<not> kostenlos (preise e) \<and> preis (preise e) = None
       \<and> telefon (kontakt (metadaten e)) = None \<and> email (kontakt (metadaten e)) = None
       \<and> website (kontakt (metadaten e)) = None \<and> erkannte_qr_codes e = []
       \<and> erkannte_links e = [] \<and> kategorie e = ANDERE \<longrightarrow> quality_score e = 1 / 7)"
proof -
  have q: "quality_score e = real (completeness_count e) / 7"
    by (simp add: quality_score_def length_quality_factors)
  have 1: "confidence (assess_data_quality e) =
     (if quality_score e > confidence e
      then (confidence e + quality_score e) / 2 else confidence e)"
    by (rule confidence_assess)
  have 3: "assess_data_quality e = set_confidence (confidence (assess_data_quality e)) e"
    by (simp add: assess_data_quality_def confidence_def set_confidence_def)
  have 4: "veranstaltungsname e \<noteq> [] \<and> veranstaltungsort (ort e) = None \<and> adresse (ort e) = None
       \<and> beginn (termine e) = None \<and> \<not> kostenlos (preise e) \<and> preis (preise e) = None
       \<and> telefon (kontakt (metadaten e)) = None \<and> email (kontakt (metadaten e)) = None
       \<and> website (kontakt (metadaten e)) = None \<and> erkannte_qr_codes e = []
       \<and> erkannte_links e = [] \<and> kategorie e = ANDERE \<longrightarrow> quality_score e = 1 / 7"
    by (simp add: quality_score_def quality_factors_def truthy_str_def truthy_opt_def
        truthy_float_def)
  show ?thesis using 1 3 4 q by simp
qed

lemma new_EventData_fields:
  "veranstaltungsname (new_EventData n) = n"
  "veranstaltungsort (ort (new_EventData n)) = None"
  "adresse (ort (new_EventData n)) = None"
  "beginn (termine (new_EventData n)) = None"
  "\<not> kostenlos (preise (new_EventData n))"
  "preis (preise (new_EventData n)) = None"
  "telefon (kontakt (metadaten (new_EventData n))) = None"
  "email (kontakt (metadaten (new_EventData n))) = None"
  "website (kontakt (metadaten (new_EventData n))) = None"
  "erkannte_qr_codes (new_EventData n) = []"
  "erkannte_links (new_EventData n) = []"
  "kategorie (new_EventData n) = ANDERE"
  "confidence (new_EventData n) = 0"
  by (simp_all add: new_EventData_def default_Ort_def default_Termine_def default_Preise_def
      default_Metadaten_def default_Kontakt_def confidence_def)

theorem assess_data_quality_spec_witness:
  "quality_score (new_EventData (S ''Minimal Event'')) = 1 / 7
   \<and> confidence (assess_data_quality (new_EventData (S ''Minimal Event''))) = 1 / 14"
proof -
  let ?e = "new_EventData (S ''Minimal Event'')"
  have n: "veranstaltungsname ?e \<noteq> []"
    by (simp add: new_EventData_fields S_def)
  from assess_data_quality_spec [of ?e] n
  have q: "quality_score ?e = 1 / 7" and k: "quality_score ?e = real (completeness_count ?e) / 7"
    and c: "confidence (assess_data_quality ?e) =
     (if real (completeness_count ?e) / 7 > confidence ?e
      then (confidence ?e + real (completeness_count ?e) / 7) / 2 else confidence ?e)"
    by (simp_all add: new_EventData_fields)
  from c k q show ?thesis by (simp add: new_EventData_fields)
qed

text \<open>
  Claim C10.  The quality pass never decreases the confidence score.
\<close>

theorem assess_data_quality_mono: "confidence e \<le> confidence (assess_data_quality e)"
  by (simp add: confidence_assess)

section \<open>Postal codes\<close>




section \<open>The confidence score under enrichment\<close>

lemmas setter_defs = set_preis_def set_kostenlos_def set_adresse_def set_postleitzahl_def
  set_stadt_def set_email_def set_telefon_def set_website_def append_online_link_def
  append_quelle_def set_confidence_def

lemma and_then_cases:
  "and_then r f = (if fst r = None then f (snd r) else r)"
  by (cases r) (auto simp: and_then_def split: option.splits)

lemma snd_and_then_pres:
  assumes "P (snd r)" and "\<And>e. P e \<Longrightarrow> P (snd (f e))"
  shows "P (snd (and_then r f))"
  using assms by (simp add: and_then_cases)

lemma confidence_merge_price: "confidence (snd (merge_price e t)) = confidence e"
  by (simp add: merge_price_def confidence_def setter_defs split: option.splits sum.splits)

lemma confidence_merge_address: "confidence (merge_address e t) = confidence e"
  by (simp add: merge_address_def confidence_def setter_defs split: option.splits)

lemma confidence_merge_event_info: "confidence (snd (merge_event_info e sc)) = confidence e"
  using confidence_merge_price [of e "lower (get_text sc)"]
  by (auto simp: merge_event_info_def Let_def confidence_merge_address
      split: prod.splits option.splits)

lemma confidence_merge_contact_info: "confidence (snd (merge_contact_info e sc)) = confidence e"
  by (simp add: merge_contact_info_def merge_website_def merge_phone_def merge_email_def
      confidence_def setter_defs Let_def split: option.splits)

lemma confidence_ticket_loop: "confidence (snd (ticket_loop kws t e sc)) = confidence e"
  by (induction kws) (simp_all add: confidence_def setter_defs split: option.splits)

lemma confidence_add_source: "confidence (snd (add_source e sc)) = confidence e"
  by (simp add: add_source_def confidence_def setter_defs split: option.splits)

lemma confidence_merge_one: "confidence (merge_one e sc) = confidence e"
  unfolding merge_one_def merge_body_def
  apply (rule snd_and_then_pres [where P = "\<lambda>x. confidence x = confidence e"])
   apply (rule snd_and_then_pres [where P = "\<lambda>x. confidence x = confidence e"])
    apply (rule snd_and_then_pres [where P = "\<lambda>x. confidence x = confidence e"])
     apply (rule snd_and_then_pres [where P = "\<lambda>x. confidence x = confidence e"])
      apply (simp_all add: confidence_merge_event_info confidence_merge_contact_info
        merge_ticket_info_def confidence_ticket_loop merge_artist_info_def
        confidence_add_source)
  done

lemma confidence_foldl_merge_one: "confidence (foldl merge_one e ds) = confidence e"
  by (induction ds arbitrary: e) (simp_all add: confidence_merge_one)

lemma confidence_merge_scraped_data:
  "confidence (merge_scraped_data e ds) =
     (if ds \<noteq> [] then min 1 (confidence e + min 0.2 (real (length ds) * 0.05))
      else confidence e)"
  using confidence_foldl_merge_one [of e ds]
  by (simp add: merge_scraped_data_def add_source_bonus_def Let_def confidence_set_confidence)
    (simp add: confidence_def)

lemma confidence_rock_concert: "confidence rock_concert = 0.85"
  by (simp add: rock_concert_def confidence_set_confidence)

text \<open>
  Claim C3.  One enrichment call with a non-empty list of \<open>n\<close> pages sets the confidence
  to \<open>min 1 (c + min 0.2 (0.05 * n))\<close>, where \<open>c\<close> is the confidence before the call: the
  bonus is added once, whatever the rules did; it is at most \<open>0.2\<close> and is \<open>0.2\<close> for ten
  pages.
\<close>

theorem merge_scraped_data_confidence:
  "ds \<noteq> [] \<Longrightarrow>
    confidence (merge_scraped_data e ds) =
      min 1 (confidence e + min 0.2 (0.05 * real (length ds)))
    \<and> min 0.2 (0.05 * real (length ds)) \<le> (0.2 :: real)
    \<and> (length ds = 10 \<longrightarrow> min 0.2 (0.05 * real (length ds)) = (0.2 :: real))"
  by (simp add: confidence_merge_scraped_data mult.commute)

theorem merge_scraped_data_confidence_witness:
  "replicate 10 test_page \<noteq> [] \<and> length (replicate 10 test_page) = 10
   \<and> confidence (merge_scraped_data rock_concert (replicate 10 test_page)) = 1
   \<and> confidence (merge_scraped_data (new_EventData (S ''Rock Concert'')) (replicate 10 test_page))
       = 0.2"
  using merge_scraped_data_confidence [of "replicate 10 test_page" rock_concert]
    merge_scraped_data_confidence [of "replicate 10 test_page" "new_EventData (S ''Rock Concert'')"]
  by (simp add: confidence_rock_concert new_EventData_fields)

lemma run_pass_bounds:
  "0 \<le> confidence e \<Longrightarrow> confidence e \<le> 1 \<Longrightarrow>
   0 \<le> confidence (run_pass e p) \<and> confidence (run_pass e p) \<le> 1"
proof (cases p)
  case (Enrich ds)
  assume "0 \<le> confidence e" "confidence e \<le> 1"
  then show ?thesis using Enrich
    by (auto simp: confidence_merge_scraped_data min_def)
next
  case Quality
  assume "0 \<le> confidence e" "confidence e \<le> 1"
  then show ?thesis using Quality quality_score_le_1 [of e] quality_score_ge_0 [of e]
    by (auto simp: confidence_assess)
qed

text \<open>
  Claim C1.  A record whose confidence lies in \<open>[0, 1]\<close> keeps a confidence in \<open>[0, 1]\<close>
  through any sequence of enrichment merges, each with any list of pages, and quality
  passes.
\<close>

theorem confidence_in_unit_interval:
  "0 \<le> confidence e \<Longrightarrow> confidence e \<le> 1 \<Longrightarrow>
   0 \<le> confidence (run_passes e ps) \<and> confidence (run_passes e ps) \<le> 1"
  unfolding run_passes_def
proof (induction ps arbitrary: e)
  case Nil
  then show ?case by simp
next
  case (Cons p ps)
  from run_pass_bounds [OF Cons.prems, of p] Cons.IH [of "run_pass e p"]
  show ?case by simp
qed

theorem confidence_in_unit_interval_witness:
  "0 \<le> confidence rock_concert \<and> confidence rock_concert \<le> 1
   \<and> 0 \<le> confidence (run_passes rock_concert
        [Enrich [test_page], Quality, Enrich [test_page, test_page], Enrich [test_page]])
   \<and> confidence (run_passes rock_concert
        [Enrich [test_page], Quality, Enrich [test_page, test_page], Enrich [test_page]]) \<le> 1"
proof -
  have h: "0 \<le> confidence rock_concert" "confidence rock_concert \<le> 1"
    by (simp_all add: confidence_rock_concert)
  from confidence_in_unit_interval [OF h] h show ?thesis by simp
qed

section \<open>The price pattern always yields a price string\<close>

lemma moved_refl: "moved s s 0"
  by (simp add: moved_def)

lemma moved_trans: "moved s s1 n \<Longrightarrow> moved s1 s2 m \<Longrightarrow> moved s s2 (n + m)"
  by (auto simp: moved_def)

lemma moved_weaken: "moved s s' n \<Longrightarrow> m \<le> n \<Longrightarrow> moved s s' m"
  by (auto simp: moved_def)

lemma moved_advance: "rest s = x # xs \<Longrightarrow> moved s (advance s) (Suc 0)"
  by (simp add: moved_def advance_def)

lemma rep_spec:
  assumes body: "\<And>s k res. ma s k = Some res \<Longrightarrow> \<exists>s'. k s' = Some res \<and> moved s s' n"
  shows "rep ma hi lo s k = Some res \<Longrightarrow> \<exists>s'. k s' = Some res \<and> moved s s' (lo * n)"
proof (induction hi arbitrary: lo s res)
  case 0
  then show ?case by (auto split: if_splits intro: moved_refl)
next
  case (Suc hi)
  show ?case
  proof (cases "ma s (\<lambda>s'. rep ma hi (lo - 1) s' k)")
    case None
    with Suc.prems have "lo = 0" "k s = Some res" by (auto split: if_splits)
    then show ?thesis by (auto intro: moved_refl)
  next
    case (Some r)
    with Suc.prems have r: "r = res" by simp
    from body [OF Some] r obtain s1 where
      s1: "rep ma hi (lo - 1) s1 k = Some res" "moved s s1 n" by auto
    from Suc.IH [OF s1(1)] obtain s' where
      s': "k s' = Some res" "moved s1 s' ((lo - 1) * n)" by auto
    have "lo * n \<le> n + (lo - 1) * n" by (cases lo) simp_all
    with moved_trans [OF s1(2) s'(2)] have "moved s s' (lo * n)"
      by (rule moved_weaken)
    with s'(1) show ?thesis by auto
  qed
qed

lemma rmatch_groupless:
  "groupless r \<Longrightarrow> rmatch r s k = Some res \<Longrightarrow>
     \<exists>s'. k s' = Some res \<and> moved s s' (min_len r)"
proof (induction r arbitrary: s k res)
  case Eps
  then show ?case by (auto intro: moved_refl)
next
  case (Lit c)
  then show ?case by (auto split: list.splits if_splits intro: moved_advance)
next
  case (Cls items)
  then show ?case by (auto split: list.splits if_splits intro: moved_advance)
next
  case (Cat a b)
  from Cat.prems have ga: "groupless a" and gb: "groupless b"
    and m: "rmatch a s (\<lambda>s'. rmatch b s' k) = Some res" by simp_all
  from Cat.IH(1) [OF ga m] obtain s1 where
    s1: "rmatch b s1 k = Some res" "moved s s1 (min_len a)" by auto
  from Cat.IH(2) [OF gb s1(1)] obtain s2 where
    s2: "k s2 = Some res" "moved s1 s2 (min_len b)" by auto
  from moved_trans [OF s1(2) s2(2)] s2(1) show ?case by auto
next
  case (Alt a b)
  show ?case
  proof (cases "rmatch a s k")
    case None
    with Alt.prems have "rmatch b s k = Some res" "groupless b" by simp_all
    from Alt.IH(2) [OF this(2) this(1)] obtain s' where
      s': "k s' = Some res" "moved s s' (min_len b)" by auto
    from moved_weaken [OF s'(2), of "min (min_len a) (min_len b)"] s'(1)
    show ?thesis by auto
  next
    case (Some r)
    with Alt.prems have "rmatch a s k = Some res" "groupless a" by simp_all
    from Alt.IH(1) [OF this(2) this(1)] obtain s' where
      s': "k s' = Some res" "moved s s' (min_len a)" by auto
    from moved_weaken [OF s'(2), of "min (min_len a) (min_len b)"] s'(1)
    show ?thesis by auto
  qed
next
  case (Rep lo hi a)
  from Rep.prems have g: "groupless a" by simp
  have body: "\<And>s k res. rmatch a s k = Some res \<Longrightarrow>
      \<exists>s'. k s' = Some res \<and> moved s s' (min_len a)"
    using Rep.IH [OF g] by blast
  from Rep.prems(2) rep_spec [where ma = "rmatch a" and n = "min_len a", OF body]
  show ?case by simp
next
  case (Grp n a)
  then show ?case by simp
next
  case WordB
  then show ?case by (auto split: if_splits intro: moved_refl)
qed

lemma groupless_number_rx: "groupless number_rx" "min_len number_rx = 1"
  by (simp_all add: number_rx_def plus_def opt_def lit_def)

lemma take_moved_nonempty:
  assumes "moved s s' n" "0 < n" shows "take (pos s' - pos s) (rest s) \<noteq> []"
proof -
  from assms have "pos s < pos s'" "pos s' \<le> pos s + length (rest s)"
    by (auto simp: moved_def)
  then have "0 < pos s' - pos s" "rest s \<noteq> []" by auto
  then show ?thesis by simp
qed

lemma rmatch_price_rx:
  assumes "rmatch price_rx s Some = Some res" "groups s = []"
  shows "(\<exists>w. w \<noteq> [] \<and> groups res = [(1, w)]) \<or> (\<exists>w. groups res = [(2, w)])"
proof -
  let ?A = "cats [Grp 1 number_rx, star (Cls [Space]), Lit 8364]"
  let ?B = "cats [lit CHR ''e'', lit CHR ''u'', lit CHR ''r'', opt (lit CHR ''o''),
                star (Cls [Space]), Grp 2 number_rx]"
  let ?tailA = "Cat (star (Cls [Space])) (Lit 8364)"
  let ?headB = "cats [lit CHR ''e'', lit CHR ''u'', lit CHR ''r'', opt (lit CHR ''o''),
                star (Cls [Space])]"
  from assms(1) have "rmatch ?A s Some = Some res \<or> rmatch ?B s Some = Some res"
    by (simp add: price_rx_def split: option.splits)
  then show ?thesis
  proof
    assume "rmatch ?A s Some = Some res"
    then have a: "rmatch number_rx s
       (\<lambda>s'. rmatch ?tailA (s'\<lparr>groups := (1, take (pos s' - pos s) (rest s)) # groups s'\<rparr>) Some)
        = Some res" by simp
    from rmatch_groupless [OF groupless_number_rx(1) a] obtain s1 where
      s1: "rmatch ?tailA (s1\<lparr>groups := (1, take (pos s1 - pos s) (rest s)) # groups s1\<rparr>) Some
            = Some res" "moved s s1 1"
      by (auto simp: groupless_number_rx)
    have gt: "groupless ?tailA" by (simp add: star_def)
    from rmatch_groupless [OF gt s1(1)] obtain s2 where
      s2: "Some s2 = Some res"
        "groups s2 = (1, take (pos s1 - pos s) (rest s)) # groups s1"
      by (auto simp: moved_def)
    from s1(2) have "groups s1 = groups s" by (simp add: moved_def)
    with s2 assms(2) take_moved_nonempty [OF s1(2)] show ?thesis by auto
  next
    assume b: "rmatch ?B s Some = Some res"
    have eq: "rmatch ?B s Some = rmatch ?headB s (\<lambda>s1. rmatch (Grp 2 number_rx) s1 Some)"
      by simp
    have gh: "groupless ?headB" by (simp add: star_def opt_def lit_def)
    from rmatch_groupless [OF gh b [unfolded eq]] obtain s1 where
      s1: "rmatch (Grp 2 number_rx) s1 Some = Some res" "groups s1 = groups s"
      by (auto simp: moved_def)
    from s1(1) have "rmatch number_rx s1
       (\<lambda>s'. Some (s'\<lparr>groups := (2, take (pos s' - pos s1) (rest s1)) # groups s'\<rparr>)) = Some res"
      by simp
    from rmatch_groupless [OF groupless_number_rx(1) this] obtain s2 where
      "res = s2\<lparr>groups := (2, take (pos s2 - pos s1) (rest s1)) # groups s2\<rparr>"
      "groups s2 = groups s1"
      by (auto simp: moved_def)
    with s1(2) assms(2) show ?thesis by auto
  qed
qed

lemma match_here_price_rx:
  assumes "match_here price_rx b i text = Some mt"
  shows "(\<exists>w. w \<noteq> [] \<and> captures mt = [(1, w)]) \<or> (\<exists>w. captures mt = [(2, w)])"
proof -
  let ?s = "\<lparr>prev = b, pos = i, rest = text, groups = []\<rparr>"
  from assms obtain res where
    res: "rmatch price_rx ?s Some = Some res" and mt: "captures mt = groups res"
    by (auto simp: match_here_def split: option.splits)
  from rmatch_price_rx [OF res] mt show ?thesis by simp
qed

lemma search_from_price_rx:
  "search_from price_rx b i t = Some mt \<Longrightarrow>
   (\<exists>w. w \<noteq> [] \<and> captures mt = [(1, w)]) \<or> (\<exists>w. captures mt = [(2, w)])"
proof (induction t arbitrary: b i)
  case Nil
  then show ?case using match_here_price_rx [of b i "[]" mt] by simp
next
  case (Cons x xs)
  show ?case
  proof (cases "match_here price_rx b i (x # xs)")
    case None
    with Cons show ?thesis by simp
  next
    case (Some m')
    with Cons.prems have "match_here price_rx b i (x # xs) = Some mt" by simp
    then show ?thesis by (rule match_here_price_rx)
  qed
qed

lemma price_str_defined:
  assumes "re_search price_rx text = Some mt"
  shows "\<exists>w. (if truthy_str (group mt 1) then group mt 1 else group mt 2) = Some w"
  using search_from_price_rx [OF assms [unfolded re_search_def]]
  by (auto simp: group_def truthy_str_def)

lemma merge_price_no_exception: "fst (merge_price e text) = None"
proof (cases "re_search price_rx text")
  case None
  then show ?thesis by (simp add: merge_price_def)
next
  case (Some mt)
  from price_str_defined [OF Some] obtain w where
    "(if truthy_str (group mt 1) then group mt 1 else group mt 2) = Some w" by blast
  with Some show ?thesis
    by (simp add: merge_price_def split: sum.splits del: if_split cong: if_cong)
qed

section \<open>The address pattern on lower-cased text\<close>

text \<open>The address pattern begins with a capital letter and is searched for in the text
  after \<open>lower()\<close>: it has no match, and the address rule leaves every record as it
  is.\<close>

lemma lower_cp_not_upper: "\<not> in_class (lower_cp c) [rng CHR ''A'' CHR ''Z'', Ch 196, Ch 214, Ch 220]"
  by (auto simp: in_class_def rng_def lower_cp_def)

lemma rmatch_address_rx_lower:
  assumes "\<forall>c \<in> set (rest s). \<not> in_class c [rng CHR ''A'' CHR ''Z'', Ch 196, Ch 214, Ch 220]"
  shows "rmatch address_rx s k = None"
  using assms
  by (cases "rest s") (simp_all add: address_rx_def capword_rx_def upper_cls_def)

lemma search_from_address_rx_lower:
  "\<forall>c \<in> set t. \<not> in_class c [rng CHR ''A'' CHR ''Z'', Ch 196, Ch 214, Ch 220] \<Longrightarrow>
   search_from address_rx b i t = None"
  by (induction t arbitrary: b i) (simp_all add: match_here_def rmatch_address_rx_lower)

lemma address_rule_never_fires: "re_search address_rx (lower t) = None"
  by (simp add: re_search_def search_from_address_rx_lower lower_def lower_cp_not_upper)

lemma merge_address_lower: "merge_address e (lower t) = e"
  by (simp add: merge_address_def address_rule_never_fires)

section \<open>The fill rules\<close>

lemmas part_defs = price_part_def address_part_def email_part_def phone_part_def
  website_part_def

lemma fill_foldl_nonempty: "\<not> em v \<Longrightarrow> foldl (fill em fo) v ds = v"
  by (induction ds) (simp_all add: fill_def)

lemma fill_foldl_join:
  "em v \<Longrightarrow> em u \<Longrightarrow>
   (foldl (fill em fo) v ds = v \<and> foldl (fill em fo) u ds = u)
   \<or> foldl (fill em fo) v ds = foldl (fill em fo) u ds"
proof (induction ds arbitrary: u v)
  case Nil
  then show ?case by simp
next
  case (Cons d ds)
  show ?case
  proof (cases "fo d")
    case None
    with Cons.prems have "fill em fo v d = v" "fill em fo u d = u"
      by (simp_all add: fill_def)
    with Cons.IH [of v u] Cons.prems show ?thesis by simp
  next
    case (Some w)
    with Cons.prems have "fill em fo v d = w" "fill em fo u d = w"
      by (simp_all add: fill_def)
    then show ?thesis by simp
  qed
qed

lemma fill_foldl_idem:
  "foldl (fill em fo) (foldl (fill em fo) v ds) ds = foldl (fill em fo) v ds"
proof (cases "em v")
  case False
  then show ?thesis by (simp add: fill_foldl_nonempty)
next
  case True
  show ?thesis
  proof (cases "em (foldl (fill em fo) v ds)")
    case False
    then show ?thesis by (simp add: fill_foldl_nonempty)
  next
    case em': True
    from fill_foldl_join [of em v "foldl (fill em fo) v ds" fo ds] True em'
    show ?thesis by auto
  qed
qed

lemma part_foldl:
  assumes "\<And>e sc. p (step e sc) = fill em fo (p e) sc"
  shows "p (foldl step e ds) = foldl (fill em fo) (p e) ds"
  by (induction ds arbitrary: e) (simp_all add: assms)

text \<open>The five rules, in the order in which a page is processed.\<close>

lemma fst_merge_event_info: "fst (merge_event_info e sc) = None"
  using merge_price_no_exception [of e "lower (get_text sc)"]
  by (cases "merge_price e (lower (get_text sc))") (simp add: merge_event_info_def Let_def)

lemma snd_merge_event_info:
  "snd (merge_event_info e sc) =
     merge_address (snd (merge_price e (lower (get_text sc)))) (lower (get_text sc))"
  using merge_price_no_exception [of e "lower (get_text sc)"]
  by (cases "merge_price e (lower (get_text sc))") (simp add: merge_event_info_def Let_def)

lemma merge_one_rules:
  assumes "\<And>u x. P (append_online_link u x) = P x" "\<And>u x. P (append_quelle u x) = P x"
  shows "P (merge_one e sc) = P (rules e sc)"
proof -
  have t: "P (snd (ticket_loop kws t x sc)) = P x" for kws t x
    by (induction kws) (simp_all add: assms split: option.splits)
  have s: "P (snd (add_source x sc)) = P x" for x
    by (simp add: add_source_def assms split: option.splits)
  show ?thesis
    by (simp add: merge_one_def merge_body_def and_then_cases fst_merge_event_info rules_def
        merge_ticket_info_def merge_artist_info_def t s)
qed

lemma rules_unfold:
  "rules e sc =
     snd (merge_website (merge_phone (merge_email
       (merge_address (snd (merge_price e (lower (get_text sc)))) (lower (get_text sc)))
       (get_text sc)) (get_text sc)) sc)"
  by (simp add: rules_def snd_merge_event_info merge_contact_info_def Let_def)

lemma price_part_merge_price:
  "price_part (snd (merge_price e (lower (get_text sc)))) =
     fill price_empty found_price (price_part e) sc"
  by (simp add: merge_price_def fill_def found_price_def price_empty_def price_part_def
      setter_defs split: option.splits sum.splits)

lemma price_part_others:
  "price_part (merge_address e t) = price_part e"
  "price_part (merge_email e t) = price_part e"
  "price_part (merge_phone e t) = price_part e"
  "price_part (snd (merge_website e sc)) = price_part e"
  by (simp_all add: merge_address_def merge_email_def merge_phone_def merge_website_def
      price_part_def setter_defs split: option.splits)

lemma price_part_rules:
  "price_part (rules e sc) = fill price_empty found_price (price_part e) sc"
  by (simp add: rules_unfold price_part_others price_part_merge_price)

lemma address_part_merge_address:
  "address_part (merge_address e (lower (get_text sc))) =
     fill address_empty found_address (address_part e) sc"
  by (simp add: merge_address_def fill_def found_address_def address_empty_def
      address_part_def setter_defs split: option.splits)

lemma address_part_others:
  "address_part (snd (merge_price e t)) = address_part e"
  "address_part (merge_email e t) = address_part e"
  "address_part (merge_phone e t) = address_part e"
  "address_part (snd (merge_website e sc)) = address_part e"
  by (simp_all add: merge_price_def merge_email_def merge_phone_def merge_website_def
      address_part_def setter_defs split: option.splits sum.splits)

lemma address_part_rules:
  "address_part (rules e sc) = fill address_empty found_address (address_part e) sc"
  by (simp add: rules_unfold address_part_others address_part_merge_address)

lemma email_part_merge_email:
  "email_part (merge_email e (get_text sc)) = fill str_empty found_email (email_part e) sc"
  by (simp add: merge_email_def fill_def found_email_def str_empty_def
      email_part_def setter_defs split: option.splits)

lemma email_part_others:
  "email_part (snd (merge_price e t)) = email_part e"
  "email_part (merge_address e t) = email_part e"
  "email_part (merge_phone e t) = email_part e"
  "email_part (snd (merge_website e sc)) = email_part e"
  by (simp_all add: merge_price_def merge_address_def merge_phone_def merge_website_def
      email_part_def setter_defs split: option.splits sum.splits)

lemma email_part_rules:
  "email_part (rules e sc) = fill str_empty found_email (email_part e) sc"
  by (simp add: rules_unfold email_part_others email_part_merge_email)

lemma phone_part_merge_phone:
  "phone_part (merge_phone e (get_text sc)) = fill str_empty found_phone (phone_part e) sc"
  by (simp add: merge_phone_def fill_def found_phone_def str_empty_def
      phone_part_def setter_defs split: option.splits)

lemma phone_part_others:
  "phone_part (snd (merge_price e t)) = phone_part e"
  "phone_part (merge_address e t) = phone_part e"
  "phone_part (merge_email e t) = phone_part e"
  "phone_part (snd (merge_website e sc)) = phone_part e"
  by (simp_all add: merge_price_def merge_address_def merge_email_def merge_website_def
      phone_part_def setter_defs split: option.splits sum.splits)

lemma phone_part_rules:
  "phone_part (rules e sc) = fill str_empty found_phone (phone_part e) sc"
  by (simp add: rules_unfold phone_part_others phone_part_merge_phone)

lemma website_part_merge_website:
  "website_part (snd (merge_website e sc)) = fill str_empty found_website (website_part e) sc"
  by (simp add: merge_website_def fill_def found_website_def str_empty_def
      website_part_def setter_defs split: option.splits)

lemma website_part_others:
  "website_part (snd (merge_price e t)) = website_part e"
  "website_part (merge_address e t) = website_part e"
  "website_part (merge_email e t) = website_part e"
  "website_part (merge_phone e t) = website_part e"
  by (simp_all add: merge_price_def merge_address_def merge_email_def merge_phone_def
      website_part_def setter_defs split: option.splits sum.splits)

lemma website_part_rules:
  "website_part (rules e sc) = fill str_empty found_website (website_part e) sc"
  by (simp add: rules_unfold website_part_others website_part_merge_website)

lemma part_tail:
  "price_part (append_online_link u x) = price_part x"
  "price_part (append_quelle u x) = price_part x"
  "price_part (set_confidence c x) = price_part x"
  "address_part (append_online_link u x) = address_part x"
  "address_part (append_quelle u x) = address_part x"
  "address_part (set_confidence c x) = address_part x"
  "email_part (append_online_link u x) = email_part x"
  "email_part (append_quelle u x) = email_part x"
  "email_part (set_confidence c x) = email_part x"
  "phone_part (append_online_link u x) = phone_part x"
  "phone_part (append_quelle u x) = phone_part x"
  "phone_part (set_confidence c x) = phone_part x"
  "website_part (append_online_link u x) = website_part x"
  "website_part (append_quelle u x) = website_part x"
  "website_part (set_confidence c x) = website_part x"
  by (simp_all add: part_defs setter_defs)

lemma price_part_merge_one:
  "price_part (merge_one e sc) = fill price_empty found_price (price_part e) sc"
  using merge_one_rules [where P = "\<lambda>x. price_part x = fill price_empty found_price (price_part e) sc"]
  by (simp add: part_tail price_part_rules)

lemma address_part_merge_one:
  "address_part (merge_one e sc) = fill address_empty found_address (address_part e) sc"
  using merge_one_rules [where P = "\<lambda>x. address_part x = fill address_empty found_address (address_part e) sc"]
  by (simp add: part_tail address_part_rules)

lemma email_part_merge_one:
  "email_part (merge_one e sc) = fill str_empty found_email (email_part e) sc"
  using merge_one_rules [where P = "\<lambda>x. email_part x = fill str_empty found_email (email_part e) sc"]
  by (simp add: part_tail email_part_rules)

lemma phone_part_merge_one:
  "phone_part (merge_one e sc) = fill str_empty found_phone (phone_part e) sc"
  using merge_one_rules [where P = "\<lambda>x. phone_part x = fill str_empty found_phone (phone_part e) sc"]
  by (simp add: part_tail phone_part_rules)

lemma website_part_merge_one:
  "website_part (merge_one e sc) = fill str_empty found_website (website_part e) sc"
  using merge_one_rules [where P = "\<lambda>x. website_part x = fill str_empty found_website (website_part e) sc"]
  by (simp add: part_tail website_part_rules)

lemma part_merge_scraped_data:
  assumes step: "\<And>e sc. p (merge_one e sc) = fill em fo (p e) sc"
    and conf: "\<And>c x. p (set_confidence c x) = p x"
  shows "p (merge_scraped_data e ds) = foldl (fill em fo) (p e) ds"
  using part_foldl [where p = p and step = merge_one, OF step, of e ds]
  by (simp add: merge_scraped_data_def add_source_bonus_def Let_def conf)

lemma part_kept:
  assumes step: "\<And>e sc. p (merge_one e sc) = fill em fo (p e) sc"
    and conf: "\<And>c x. p (set_confidence c x) = p x"
  shows "\<not> em (p e) \<Longrightarrow> p (merge_scraped_data e ds) = p e"
  by (simp add: part_merge_scraped_data [where p = p, OF step conf] fill_foldl_nonempty)

lemma part_idem:
  assumes step: "\<And>e sc. p (merge_one e sc) = fill em fo (p e) sc"
    and conf: "\<And>c x. p (set_confidence c x) = p x"
  shows "p (merge_scraped_data (merge_scraped_data e ds) ds) = p (merge_scraped_data e ds)"
  by (simp add: part_merge_scraped_data [where p = p, OF step conf] fill_foldl_idem)

lemma merge_parts:
  "(\<not> price_empty (price_part e) \<longrightarrow> price_part (merge_scraped_data e ds) = price_part e)
 \<and> (\<not> address_empty (address_part e) \<longrightarrow>
       address_part (merge_scraped_data e ds) = address_part e)
 \<and> (\<not> str_empty (email_part e) \<longrightarrow> email_part (merge_scraped_data e ds) = email_part e)
 \<and> (\<not> str_empty (phone_part e) \<longrightarrow> phone_part (merge_scraped_data e ds) = phone_part e)
 \<and> (\<not> str_empty (website_part e) \<longrightarrow> website_part (merge_scraped_data e ds) = website_part e)
 \<and> price_part (merge_scraped_data (merge_scraped_data e ds) ds)
      = price_part (merge_scraped_data e ds)
 \<and> address_part (merge_scraped_data (merge_scraped_data e ds) ds)
      = address_part (merge_scraped_data e ds)
 \<and> email_part (merge_scraped_data (merge_scraped_data e ds) ds)
      = email_part (merge_scraped_data e ds)
 \<and> phone_part (merge_scraped_data (merge_scraped_data e ds) ds)
      = phone_part (merge_scraped_data e ds)
 \<and> website_part (merge_scraped_data (merge_scraped_data e ds) ds)
      = website_part (merge_scraped_data e ds)"
  using part_kept [where p = price_part, OF price_part_merge_one part_tail(3), of e ds]
    part_kept [where p = address_part, OF address_part_merge_one part_tail(6), of e ds]
    part_kept [where p = email_part, OF email_part_merge_one part_tail(9), of e ds]
    part_kept [where p = phone_part, OF phone_part_merge_one part_tail(12), of e ds]
    part_kept [where p = website_part, OF website_part_merge_one part_tail(15), of e ds]
    part_idem [where p = price_part, OF price_part_merge_one part_tail(3), of e ds]
    part_idem [where p = address_part, OF address_part_merge_one part_tail(6), of e ds]
    part_idem [where p = email_part, OF email_part_merge_one part_tail(9), of e ds]
    part_idem [where p = phone_part, OF phone_part_merge_one part_tail(12), of e ds]
    part_idem [where p = website_part, OF website_part_merge_one part_tail(15), of e ds]
  by simp

lemma lower_S_euro: "lower (S ''euro 10'') = S ''euro 10''"
  by (simp add: lower_def lower_cp_def S_def)

lemma search_euro_page:
  "re_search price_rx (S ''euro 10'') = Some \<lparr>group0 = S ''euro 10'', captures = [(2, S ''10'')]\<rparr>"
  by (simp add: re_search_def price_rx_def S_def match_here_def number_rx_def plus_def
      star_def opt_def lit_def advance_def in_class_def re_digit_def re_space_def)

lemma py_float_10: "py_float (replace_cp 44 46 (S ''10'')) = Inr 10"
  by (simp add: py_float_def replace_cp_def S_def re_digit_def dec_value_def)

lemma found_price_euro_page: "found_price euro_page = Some (Some 10, False)"
  by (simp add: found_price_def euro_page_def get_text_def lower_S_euro search_euro_page
      group_def truthy_str_def py_float_10)

text \<open>
  Claim C2, as stated: no merge rule overwrites a field that is already set.  A price of
  \<open>0.0\<close> on a record that is not marked free is set, and is overwritten by the price
  found on a page.
\<close>

theorem merge_overwrites_zero_price:
  "preis (preise zero_price_concert) = Some 0
   \<and> \<not> kostenlos (preise zero_price_concert)
   \<and> preis (preise (merge_scraped_data zero_price_concert [euro_page])) = Some 10"
proof -
  have p: "price_part zero_price_concert = (Some 0, False)"
    by (simp add: price_part_def zero_price_concert_def rock_concert_def new_EventData_def
        default_Preise_def setter_defs)
  have "price_part (merge_scraped_data zero_price_concert [euro_page]) = (Some 10, False)"
    by (simp add: part_merge_scraped_data [where p = price_part, OF price_part_merge_one part_tail(3)]
        p fill_def price_empty_def truthy_float_def found_price_euro_page)
  with p show ?thesis by (simp add: price_part_def)
qed

text \<open>
  Claim C2, amended.  A rule writes only when the field it tests is empty in the sense of the
  source: \<open>None\<close>, the empty string, or for the price a value of zero on a record not
  marked free.  A record with a non-zero price or marked free keeps price and free flag; a
  record with a non-empty street address keeps address, postal code and city; a non-empty
  email, phone and website are kept.  Running the merge again on its own result with the same
  pages changes none of these fields.
\<close>

theorem merge_fills_only_empty:
  "let e' = merge_scraped_data e ds; e'' = merge_scraped_data e' ds in
   (truthy_float (preis (preise e)) \<or> kostenlos (preise e) \<longrightarrow>
      preis (preise e') = preis (preise e) \<and> kostenlos (preise e') = kostenlos (preise e))
   \<and> (truthy_str (adresse (ort e)) \<longrightarrow>
      adresse (ort e') = adresse (ort e) \<and> postleitzahl (ort e') = postleitzahl (ort e)
      \<and> stadt (ort e') = stadt (ort e))
   \<and> (truthy_str (email (kontakt (metadaten e))) \<longrightarrow>
      email (kontakt (metadaten e')) = email (kontakt (metadaten e)))
   \<and> (truthy_str (telefon (kontakt (metadaten e))) \<longrightarrow>
      telefon (kontakt (metadaten e')) = telefon (kontakt (metadaten e)))
   \<and> (truthy_str (website (kontakt (metadaten e))) \<longrightarrow>
      website (kontakt (metadaten e')) = website (kontakt (metadaten e)))
   \<and> preis (preise e'') = preis (preise e') \<and> kostenlos (preise e'') = kostenlos (preise e')
   \<and> adresse (ort e'') = adresse (ort e') \<and> postleitzahl (ort e'') = postleitzahl (ort e')
   \<and> stadt (ort e'') = stadt (ort e')
   \<and> email (kontakt (metadaten e'')) = email (kontakt (metadaten e'))
   \<and> telefon (kontakt (metadaten e'')) = telefon (kontakt (metadaten e'))
   \<and> website (kontakt (metadaten e'')) = website (kontakt (metadaten e'))"
  using merge_parts [of e ds]
  by (simp add: Let_def part_defs price_empty_def address_empty_def str_empty_def)

lemma full_concert_fields:
  "preis (preise full_concert) = Some 25.5"
  "kostenlos (preise full_concert) = False"
  "adresse (ort full_concert) = Some (S ''Teststr. 123'')"
  "postleitzahl (ort full_concert) = Some (S ''10115'')"
  "stadt (ort full_concert) = Some (S ''Berlin'')"
  "email (kontakt (metadaten full_concert)) = Some (S ''box@venue.de'')"
  "telefon (kontakt (metadaten full_concert)) = Some (S ''030 1234567'')"
  "website (kontakt (metadaten full_concert)) = Some (S ''https://venue.de'')"
  by (simp_all add: full_concert_def rock_concert_def new_EventData_def default_Preise_def
      default_Ort_def default_Metadaten_def default_Kontakt_def setter_defs)

theorem merge_fills_only_empty_witness:
  "truthy_float (preis (preise full_concert))
   \<and> truthy_str (adresse (ort full_concert))
   \<and> truthy_str (email (kontakt (metadaten full_concert)))
   \<and> truthy_str (telefon (kontakt (metadaten full_concert)))
   \<and> truthy_str (website (kontakt (metadaten full_concert)))
   \<and> preis (preise (merge_scraped_data full_concert [test_page, euro_page])) = Some 25.5
   \<and> adresse (ort (merge_scraped_data full_concert [test_page, euro_page]))
       = Some (S ''Teststr. 123'')
   \<and> postleitzahl (ort (merge_scraped_data full_concert [test_page, euro_page]))
       = Some (S ''10115'')
   \<and> stadt (ort (merge_scraped_data full_concert [test_page, euro_page])) = Some (S ''Berlin'')
   \<and> email (kontakt (metadaten (merge_scraped_data full_concert [test_page, euro_page])))
       = Some (S ''box@venue.de'')
   \<and> telefon (kontakt (metadaten (merge_scraped_data full_concert [test_page, euro_page])))
       = Some (S ''030 1234567'')
   \<and> website (kontakt (metadaten (merge_scraped_data full_concert [test_page, euro_page])))
       = Some (S ''https://venue.de'')"
  using merge_fills_only_empty [of full_concert "[test_page, euro_page]"]
  by (simp add: Let_def full_concert_fields truthy_float_def truthy_str_def S_def)

section \<open>Properties of the URL validation\<close>

lemma insort_key_bool_True:
  "k x \<Longrightarrow> \<forall>y \<in> set ys. \<not> k y \<Longrightarrow> insort_key k x (ys @ zs) = ys @ insort_key k x zs"
  by (induction ys) auto

lemma insort_key_bool_head:
  "\<forall>z \<in> set zs. k z \<Longrightarrow> insort_key k x zs = x # zs" if "k x" for k :: "'a \<Rightarrow> bool"
  using that by (cases zs) auto

lemma insort_key_bool_False:
  "\<not> k x \<Longrightarrow> insort_key k x ys = x # ys" for k :: "'a \<Rightarrow> bool"
  by (cases ys) auto

lemma sort_key_bool:
  "sort_key k xs = filter (\<lambda>x. \<not> k x) xs @ filter k xs" for k :: "'a \<Rightarrow> bool"
proof (induction xs)
  case Nil
  then show ?case by simp
next
  case (Cons x xs)
  show ?case
  proof (cases "k x")
    case True
    have "insort_key k x (filter (\<lambda>x. \<not> k x) xs @ filter k xs)
          = filter (\<lambda>x. \<not> k x) xs @ insort_key k x (filter k xs)"
      using True by (intro insort_key_bool_True) auto
    also have "insort_key k x (filter k xs) = x # filter k xs"
      using True by (intro insort_key_bool_head) auto
    finally show ?thesis using True Cons.IH by simp
  next
    case False
    then show ?thesis using Cons.IH by (simp add: insort_key_bool_False)
  qed
qed

lemma validate_step_eq:
  "validate_step valid acc x =
     acc @ (if accepts_unprefixed valid x then [accepted_form valid x] else [])"
  by (simp add: validate_step_def accepts_unprefixed_def accepted_form_def Let_def)

lemma foldl_validate_step:
  "foldl (validate_step valid) acc urls =
     acc @ map (accepted_form valid) (filter (accepts_unprefixed valid) urls)"
  by (induction urls arbitrary: acc) (simp_all add: validate_step_eq)

lemma accepts_eq:
  assumes "\<forall>x. has_scheme x \<and> \<not> valid x \<longrightarrow> \<not> valid (S ''https://'' @ x)"
  shows "accepts_unprefixed valid = accepts valid"
  using assms by (auto simp: accepts_def accepts_unprefixed_def fun_eq_iff)

text \<open>
  Claim C7.  The result lists the accepted candidates, those from German-speaking regions
  first and both groups in the order of the input.  A candidate is accepted when the
  validator accepts it, and is then returned as it is; or when it holds one of the fragments
  \<open>.de\<close>, \<open>.at\<close>, \<open>.ch\<close>, does not start with a scheme and is accepted with
  \<open>https://\<close> in front, and is then returned in that form.  For a validator that does not
  accept a string with two schemes in front when it rejects it with one, a candidate is
  accepted exactly when the validator accepts it or when it holds one of the fragments and
  is accepted with \<open>https://\<close> in front.
\<close>

theorem validate_german_urls_spec:
  "validate_german_urls valid urls =
     filter is_german (map (accepted_form valid) (filter (accepts_unprefixed valid) urls))
     @ filter (\<lambda>x. \<not> is_german x)
         (map (accepted_form valid) (filter (accepts_unprefixed valid) urls))
   \<and> ((\<forall>x. has_scheme x \<and> \<not> valid x \<longrightarrow> \<not> valid (S ''https://'' @ x)) \<longrightarrow>
      validate_german_urls valid urls =
        filter is_german (map (accepted_form valid) (filter (accepts valid) urls))
        @ filter (\<lambda>x. \<not> is_german x) (map (accepted_form valid) (filter (accepts valid) urls)))"
proof -
  have 1: "validate_german_urls valid urls =
     filter is_german (map (accepted_form valid) (filter (accepts_unprefixed valid) urls))
     @ filter (\<lambda>x. \<not> is_german x)
         (map (accepted_form valid) (filter (accepts_unprefixed valid) urls))"
    by (simp add: validate_german_urls_def foldl_validate_step sort_key_bool)
  have 2: "filter (accepts_unprefixed valid) urls = filter (accepts valid) urls"
    if "\<forall>x. has_scheme x \<and> \<not> valid x \<longrightarrow> \<not> valid (S ''https://'' @ x)"
    using accepts_eq [OF that] by simp
  from 1 2 show ?thesis by simp
qed

lemma simple_valid_scheme:
  "\<forall>x. has_scheme x \<and> \<not> simple_valid x \<longrightarrow> \<not> simple_valid (S ''https://'' @ x)"
  by (auto simp: simple_valid_def S_def has_scheme_def)


lemma is_german_candidates:
  "is_german (S ''https://example.com'') = False"
  "is_german (S ''https://events.de'') = True"
  "is_german (S ''https://www.tickets.de'') = True"
  "is_german (S ''www.tickets.de'') = True"
  "is_german (S ''invalid-url'') = False"
  "is_german (S ''https://venue.at'') = True"
  by (simp_all add: is_german_def german_domains_def S_def lower_def lower_cp_def)

lemma simple_valid_candidates:
  "simple_valid (S ''https://example.com'')"
  "simple_valid (S ''https://events.de'')"
  "\<not> simple_valid (S ''www.tickets.de'')"
  "simple_valid (S ''https://'' @ S ''www.tickets.de'')"
  "\<not> simple_valid (S ''invalid-url'')"
  "simple_valid (S ''https://venue.at'')"
  by (simp_all add: simple_valid_def has_scheme_def S_def)

theorem validate_german_urls_spec_witness:
  "validate_german_urls simple_valid candidate_urls =
       [S ''https://events.de'', S ''https://www.tickets.de'', S ''https://venue.at'',
        S ''https://example.com'']"
proof -
  have "validate_german_urls simple_valid candidate_urls =
        filter is_german (map (accepted_form simple_valid) (filter (accepts simple_valid) candidate_urls))
        @ filter (\<lambda>x. \<not> is_german x) (map (accepted_form simple_valid) (filter (accepts simple_valid) candidate_urls))"
    using validate_german_urls_spec [of simple_valid candidate_urls] simple_valid_scheme by blast
  also have "\<dots> = [S ''https://events.de'', S ''https://www.tickets.de'', S ''https://venue.at'',
        S ''https://example.com'']"
    using is_german_candidates simple_valid_candidates
    by (simp add: candidate_urls_def accepts_def accepted_form_def) (simp add: S_def)
  finally show ?thesis .
qed

section \<open>Properties of the response parser\<close>

lemma find_cp_ge: "- 1 \<le> find_cp c s"
  by (induction s) (auto simp: Let_def)

lemma find_cp_none: "(find_cp c s = - 1) = (c \<notin> set s)"
proof (induction s)
  case Nil
  then show ?case by simp
next
  case (Cons x xs)
  from find_cp_ge [of c xs] Cons show ?case by (auto simp: Let_def)
qed

lemma find_cp_nonneg: "find_cp c s \<noteq> - 1 \<Longrightarrow> 0 \<le> find_cp c s"
  by (induction s) (auto simp: Let_def split: if_splits)

lemma find_cp_first: "first_index c s i \<Longrightarrow> find_cp c s = int i"
proof (induction s arbitrary: i)
  case Nil
  then show ?case by (simp add: first_index_def)
next
  case (Cons x xs)
  show ?case
  proof (cases i)
    case 0
    with Cons.prems show ?thesis by (simp add: first_index_def)
  next
    case (Suc k)
    with Cons.prems have x: "x \<noteq> c" and k: "first_index c xs k"
      by (auto simp: first_index_def)
    from Cons.IH [OF k] x Suc show ?thesis by (simp add: Let_def)
  qed
qed

lemma first_index_rev:
  assumes "last_index c s j" shows "first_index c (rev s) (length s - 1 - j)"
proof -
  from assms have j: "j < length s" and c: "s ! j = c" and n: "c \<notin> set (drop (Suc j) s)"
    by (simp_all add: last_index_def)
  from j have "rev s ! (length s - 1 - j) = s ! j"
    by (simp add: rev_nth)
  moreover have "take (length s - 1 - j) (rev s) = rev (drop (Suc j) s)"
    using j by (simp add: take_rev)
  ultimately show ?thesis using j c n by (simp add: first_index_def)
qed

lemma rfind_cp_last: "last_index c s j \<Longrightarrow> rfind_cp c s = int j"
proof -
  assume l: "last_index c s j"
  then have j: "j < length s" by (simp add: last_index_def)
  from find_cp_first [OF first_index_rev [OF l]] j show ?thesis
    by (simp add: rfind_cp_def Let_def of_nat_diff)
qed

lemma rfind_cp_none: "(rfind_cp c s = - 1) = (c \<notin> set s)"
proof -
  have "find_cp c (rev s) \<noteq> - 1 \<Longrightarrow> find_cp c (rev s) < int (length s)"
  proof -
    have "find_cp c t < int (length t)" for t
      by (induction t) (auto simp: Let_def)
    from this [of "rev s"] show ?thesis by simp
  qed
  moreover have "(find_cp c (rev s) = - 1) = (c \<notin> set s)"
    using find_cp_none [of c "rev s"] by simp
  ultimately show ?thesis
    by (auto simp: rfind_cp_def Let_def)
qed

lemma json_text_slice:
  "first_index 123 s i \<Longrightarrow> last_index 125 s j \<Longrightarrow> json_text s = take (Suc j - i) (drop i s)"
  by (simp add: json_text_def find_cp_first rfind_cp_last slice_def nat_add_distrib)

lemma name_key_neq:
  "S ''erkannte_qr_codes'' \<noteq> name_key" "S ''erkannte_links'' \<noteq> name_key"
  by (simp_all add: name_key_def S_def)

lemma map_of_attach:
  "k \<noteq> name_key \<Longrightarrow> map_of (attach k v kvs) name_key = map_of kvs name_key"
  by (simp add: attach_def update_conv')

lemma event_name_attach:
  "event_name (JObj (attach (S ''erkannte_links'') urls (attach (S ''erkannte_qr_codes'') qr kvs)))
     = event_name (JObj kvs)"
  by (simp add: event_name_def map_of_attach name_key_neq)

lemma parse_body_after_loads:
  "parse_body loads from_dict t qr urls =
     (if 123 \<notin> set t \<or> 125 \<notin> set t then Inr None
      else bind_exn (loads (json_text t)) (after_loads from_dict qr urls))"
proof -
  have "(rfind_cp 125 t + 1 = 0) = (125 \<notin> set t)"
    using rfind_cp_none [of 125 t] by auto
  then show ?thesis
    by (simp add: parse_body_def after_loads_def [abs_def] json_text_def Let_def find_cp_none)
qed

lemma bind_exn_simps:
  "bind_exn (Inr x) f = f x" "bind_exn (Inl err) f = Inl err"
  by (simp_all add: bind_exn_def)

lemma setitem_attach:
  "(if truthy_list v then setitem (JObj kvs) k (JArr (map JStr (the v))) else Inr (JObj kvs))
     = Inr (JObj (attach k v kvs))"
  by (simp add: attach_def)

lemma after_loads_obj:
  "after_loads from_dict qr urls (JObj kvs) =
     (if has_event_name (JObj kvs)
      then bind_exn (from_dict (JObj (attach (S ''erkannte_links'') urls
             (attach (S ''erkannte_qr_codes'') qr kvs)))) (\<lambda>event_data. Inr (Some event_data))
      else Inr None)"
proof -
  let ?kvs = "attach (S ''erkannte_links'') urls (attach (S ''erkannte_qr_codes'') qr kvs)"
  have 1: "after_loads from_dict qr urls (JObj kvs) =
     bind_exn (contains_key name_key (JObj ?kvs)) (\<lambda>has_name.
           if \<not> has_name then Inr None
           else
             bind_exn (getitem (JObj ?kvs) name_key) (\<lambda>v.
             if \<not> json_truthy v then Inr None
             else bind_exn (from_dict (JObj ?kvs)) (\<lambda>event_data. Inr (Some event_data))))"
    unfolding after_loads_def setitem_attach bind_exn_simps ..
  have 2: "map_of ?kvs name_key = map_of kvs name_key"
    by (simp add: map_of_attach name_key_neq)
  show ?thesis unfolding 1
    by (simp add: bind_exn_def 2 has_event_name_def event_name_def split: option.splits)
qed

lemma after_loads_other:
  "(\<forall>kvs. d \<noteq> JObj kvs) \<Longrightarrow> after_loads from_dict qr urls d \<noteq> Inr (Some ev)"
  by (cases d) (auto simp: after_loads_def bind_exn_def split: if_splits sum.splits)

lemma has_event_name_other: "(\<forall>kvs. d \<noteq> JObj kvs) \<Longrightarrow> \<not> has_event_name d"
  by (cases d) (simp_all add: has_event_name_def event_name_def)

lemma parse_response_Some:
  "(parse_response loads from_dict t qr urls = Some ev) =
     (123 \<in> set t \<and> 125 \<in> set t \<and>
      (\<exists>kvs. loads (json_text t) = Inr (JObj kvs) \<and> has_event_name (JObj kvs) \<and>
         from_dict (JObj (attach (S ''erkannte_links'') urls
           (attach (S ''erkannte_qr_codes'') qr kvs))) = Inr ev))"
proof (cases "123 \<notin> set t \<or> 125 \<notin> set t")
  case True
  then show ?thesis by (auto simp: parse_response_def parse_body_after_loads)
next
  case False
  show ?thesis
  proof (cases "loads (json_text t)")
    case (Inl err)
    with False show ?thesis
      by (simp add: parse_response_def parse_body_after_loads bind_exn_def)
  next
    case (Inr d)
    show ?thesis
    proof (cases "\<exists>kvs. d = JObj kvs")
      case True
      then obtain kvs where d: "d = JObj kvs" by blast
      with False Inr show ?thesis
        by (auto simp: parse_response_def parse_body_after_loads bind_exn_def after_loads_obj
            split: sum.splits)
    next
      case other: False
      then have "after_loads from_dict qr urls d \<noteq> Inr (Some ev)"
        by (intro after_loads_other) simp
      with False Inr other show ?thesis
        by (auto simp: parse_response_def parse_body_after_loads bind_exn_def
            split: sum.splits)
    qed
  qed
qed

lemma parse_response_None_iff:
  "(parse_response loads from_dict t qr urls = None) =
     (\<forall>ev. parse_response loads from_dict t qr urls \<noteq> Some ev)"
  by (cases "parse_response loads from_dict t qr urls") simp_all

text \<open>
  Claim C5.  The text handed to the decoder runs from the first opening brace to the last
  closing brace of the reply.  The parser returns no record when a brace is missing, when the
  decoder fails, and when the decoded value is not an object with a non-empty field
  \<open>veranstaltungsname\<close>; every exception raised inside the parser ends in the result
  \<open>None\<close>.  A record is returned exactly when an object with a non-empty event name is
  decoded and the construction of the record from it, with the detected codes and links
  attached, succeeds.
\<close>

theorem parse_response_spec:
  "(123 \<notin> set t \<or> 125 \<notin> set t \<longrightarrow> parse_response loads from_dict t qr urls = None)
   \<and> (\<forall>i j. first_index 123 t i \<and> last_index 125 t j \<longrightarrow>
         json_text t = take (Suc j - i) (drop i t))
   \<and> (\<forall>err. loads (json_text t) = Inl err \<longrightarrow> parse_response loads from_dict t qr urls = None)
   \<and> (\<forall>d. loads (json_text t) = Inr d \<and> \<not> has_event_name d \<longrightarrow>
         parse_response loads from_dict t qr urls = None)
   \<and> (\<forall>err. parse_body loads from_dict t qr urls = Inl err \<longrightarrow>
         parse_response loads from_dict t qr urls = None)
   \<and> (\<forall>ev. (parse_response loads from_dict t qr urls = Some ev) =
         (123 \<in> set t \<and> 125 \<in> set t \<and>
          (\<exists>kvs. loads (json_text t) = Inr (JObj kvs) \<and> has_event_name (JObj kvs) \<and>
             from_dict (JObj (attach (S ''erkannte_links'') urls
               (attach (S ''erkannte_qr_codes'') qr kvs))) = Inr ev)))"
proof -
  have 1: "123 \<notin> set t \<or> 125 \<notin> set t \<longrightarrow> parse_response loads from_dict t qr urls = None"
    by (auto simp: parse_response_None_iff parse_response_Some)
  have 2: "\<forall>i j. first_index 123 t i \<and> last_index 125 t j \<longrightarrow>
         json_text t = take (Suc j - i) (drop i t)"
    by (auto intro: json_text_slice)
  have 3: "\<forall>err. loads (json_text t) = Inl err \<longrightarrow>
      parse_response loads from_dict t qr urls = None"
    by (auto simp: parse_response_None_iff parse_response_Some)
  have 4: "\<forall>d. loads (json_text t) = Inr d \<and> \<not> has_event_name d \<longrightarrow>
         parse_response loads from_dict t qr urls = None"
    by (auto simp: parse_response_None_iff parse_response_Some)
  have 5: "\<forall>err. parse_body loads from_dict t qr urls = Inl err \<longrightarrow>
         parse_response loads from_dict t qr urls = None"
    by (simp add: parse_response_def)
  from 1 2 3 4 5 parse_response_Some [of loads from_dict t qr urls] show ?thesis
    by blast
qed

lemma json_text_examples:
  "json_text (S ''Here: {name} done'') = S ''{name}''"
  "json_text (S ''Here: {} done'') = S ''{}''"
  "json_text (S ''x {oops} y'') = S ''{oops}''"
  by (simp_all add: json_text_def rfind_cp_def slice_def S_def Let_def)

lemma sample_loads_examples:
  "sample_loads (S ''{name}'') = Inr (JObj [(name_key, JStr (S ''Test Event''))])"
  "sample_loads (S ''{}'') = Inr (JObj [])"
  "sample_loads (S ''{oops}'') = Inl JSONDecodeError"
  by (simp_all add: sample_loads_def S_def)

theorem parse_response_spec_witness:
  "123 \<notin> set (S ''This is not JSON data'')
   \<and> parse_response sample_loads sample_from_dict (S ''This is not JSON data'') None None = None
   \<and> sample_loads (json_text (S ''x {oops} y'')) = Inl JSONDecodeError
   \<and> parse_response sample_loads sample_from_dict (S ''x {oops} y'') None None = None
   \<and> sample_loads (json_text (S ''Here: {} done'')) = Inr (JObj [])
   \<and> \<not> has_event_name (JObj [])
   \<and> parse_response sample_loads sample_from_dict (S ''Here: {} done'') None None = None
   \<and> first_index 123 (S ''Here: {name} done'') 6 \<and> last_index 125 (S ''Here: {name} done'') 11
   \<and> json_text (S ''Here: {name} done'') = S ''{name}''
   \<and> parse_response sample_loads sample_from_dict (S ''Here: {name} done'') None None
       = Some (new_EventData (S ''Test Event''))"
proof -
  have a: "123 \<notin> set (S ''This is not JSON data'')" by (simp add: S_def)
  have b: "sample_loads (json_text (S ''x {oops} y'')) = Inl JSONDecodeError"
    by (simp add: json_text_examples sample_loads_examples)
  have c: "sample_loads (json_text (S ''Here: {} done'')) = Inr (JObj [])"
    "\<not> has_event_name (JObj [])"
    by (simp_all add: json_text_examples sample_loads_examples has_event_name_def event_name_def)
  have d: "first_index 123 (S ''Here: {name} done'') 6"
    "last_index 125 (S ''Here: {name} done'') 11"
    by (simp_all add: first_index_def last_index_def S_def)
  have e: "123 \<in> set (S ''Here: {name} done'')" "125 \<in> set (S ''Here: {name} done'')"
    "sample_loads (json_text (S ''Here: {name} done''))
       = Inr (JObj [(name_key, JStr (S ''Test Event''))])"
    "has_event_name (JObj [(name_key, JStr (S ''Test Event''))])"
    "sample_from_dict (JObj (attach (S ''erkannte_links'') None
        (attach (S ''erkannte_qr_codes'') None [(name_key, JStr (S ''Test Event''))])))
       = Inr (new_EventData (S ''Test Event''))"
    by (simp_all add: json_text_examples sample_loads_examples has_event_name_def
        event_name_def attach_def truthy_list_def sample_from_dict_def)
      (simp_all add: S_def)
  from parse_response_spec [of "S ''This is not JSON data''" sample_loads sample_from_dict None None] a
  have 1: "parse_response sample_loads sample_from_dict (S ''This is not JSON data'') None None = None"
    by blast
  from parse_response_spec [of "S ''x {oops} y''" sample_loads sample_from_dict None None] b
  have 2: "parse_response sample_loads sample_from_dict (S ''x {oops} y'') None None = None"
    by blast
  from parse_response_spec [of "S ''Here: {} done''" sample_loads sample_from_dict None None] c
  have 3: "parse_response sample_loads sample_from_dict (S ''Here: {} done'') None None = None"
    by blast
  from parse_response_spec [of "S ''Here: {name} done''" sample_loads sample_from_dict None None] d
  have 4: "json_text (S ''Here: {name} done'') = take (Suc 11 - 6) (drop 6 (S ''Here: {name} done''))"
    by blast
  from parse_response_spec [of "S ''Here: {name} done''" sample_loads sample_from_dict None None] e
  have 5: "parse_response sample_loads sample_from_dict (S ''Here: {name} done'') None None
       = Some (new_EventData (S ''Test Event''))"
    by blast
  from a b c d 1 2 3 4 5 show ?thesis by (simp add: json_text_examples)
qed

section \<open>The merge works on a copy\<close>

lemma cell_at_append: "cell_at h r = Some c \<Longrightarrow> cell_at (h @ xs) r = Some c"
  by (auto simp: cell_at_def nth_append split: if_splits)

lemma deref_append: "deref as h r = Some x \<Longrightarrow> deref as (h @ xs) r = Some x"
  by (auto simp: deref_def cell_at_append split: bind_splits)

lemma load_ticket_append: "load_ticket h r = Some x \<Longrightarrow> load_ticket (h @ xs) r = Some x"
  by (auto simp: load_ticket_def deref_append split: bind_splits)

lemma load_meta_append: "load_meta h r = Some x \<Longrightarrow> load_meta (h @ xs) r = Some x"
  by (auto simp: load_meta_def deref_append load_ticket_append split: bind_splits)

lemma load_append: "load h p = Some e \<Longrightarrow> load (h @ xs) p = Some e"
  by (auto simp: load_def deref_append load_meta_append split: bind_splits)

lemma cell_at_new:
  "k < length cs \<Longrightarrow> cell_at (h @ cs) (length h + k) = Some (cs ! k)"
  by (simp add: cell_at_def nth_append)

lemma length_record_cells: "length (record_cells n v) = 13"
  by (simp add: record_cells_def)

lemma deref_record_cells:
  "deref the_event (h @ record_cells (length h) v) (length h) =
     Some \<lparr>o_veranstaltungsname = veranstaltungsname v, o_ort = length h + 1,
        o_termine = length h + 2,
        o_preise = length h + 3, o_beschreibung = beschreibung v, o_kategorie = kategorie v,
        o_metadaten = length h + 4, o_erkannte_links = length h + 5,
        o_erkannte_qr_codes = length h + 6, o_sprache = sprache v\<rparr>"
  "deref the_ort (h @ record_cells (length h) v) (length h + 1) = Some (ort v)"
  "deref the_termine (h @ record_cells (length h) v) (length h + 2) = Some (termine v)"
  "deref the_preise (h @ record_cells (length h) v) (length h + 3) = Some (preise v)"
  "deref the_meta (h @ record_cells (length h) v) (length h + 4) =
     Some \<lparr>o_kuenstler = length h + 7, o_ticketinfo = length h + 8, o_kontakt = length h + 9,
        o_quellen = length h + 10,
        o_vertrauenswuerdigkeit = vertrauenswuerdigkeit (metadaten v)\<rparr>"
  "deref the_strlist (h @ record_cells (length h) v) (length h + 5) = Some (erkannte_links v)"
  "deref the_strlist (h @ record_cells (length h) v) (length h + 6) =
     Some (erkannte_qr_codes v)"
  "deref the_kuenstler (h @ record_cells (length h) v) (length h + 7) =
     Some (kuenstler (metadaten v))"
  "deref the_ticket (h @ record_cells (length h) v) (length h + 8) =
     Some \<lparr>o_verkaufsstellen = length h + 11, o_online_links = length h + 12,
        o_ticket_telefon = ticket_telefon (ticketinfo (metadaten v))\<rparr>"
  "deref the_kontakt (h @ record_cells (length h) v) (length h + 9) = Some (kontakt (metadaten v))"
  "deref the_strlist (h @ record_cells (length h) v) (length h + 10) =
     Some (quellen (metadaten v))"
  "deref the_strlist (h @ record_cells (length h) v) (length h + 11) =
     Some (verkaufsstellen (ticketinfo (metadaten v)))"
  "deref the_strlist (h @ record_cells (length h) v) (length h + 12) =
     Some (online_links (ticketinfo (metadaten v)))"
  by (simp_all add: deref_def cell_at_def nth_append record_cells_def)

lemmas deref_cells = deref_record_cells deref_record_cells [simplified]

lemma load_new_record: "load (h @ record_cells (length h) v) (length h) = Some v"
  by (simp add: load_def load_meta_def load_ticket_def deref_cells)

lemma write_back_new_record:
  "write_back (h @ record_cells (length h) v) (length h) w = h @ record_cells (length h) w"
  by (simp add: write_back_def deref_cells list_update_append)
    (simp add: record_cells_def)

lemma modify_new_record:
  "modify (h @ record_cells (length h) v) (length h) f = h @ record_cells (length h) (f v)"
  by (simp add: modify_def load_new_record write_back_new_record)

lemma foldl_modify_new_record:
  "foldl (\<lambda>h' d. modify h' (length h) (\<lambda>e. step e d)) (h @ record_cells (length h) v) ds
     = h @ record_cells (length h) (foldl step v ds)"
  by (induction ds arbitrary: v) (simp_all add: modify_new_record)

lemma merge_scraped_data_h_eq:
  "load h p = Some e \<Longrightarrow>
   merge_scraped_data_h h p ds =
     Some (h @ record_cells (length h) (merge_scraped_data e ds), length h)"
  by (simp add: merge_scraped_data_h_def deep_copy_def new_record_def Let_def
      foldl_modify_new_record modify_new_record merge_scraped_data_def)

text \<open>
  Claim C9.  When \<open>p\<close> refers to a record, the merge returns a reference \<open>q\<close> to a new
  object: \<open>q\<close> is no address of the heap before the call.  Every cell of that heap is
  unchanged after the call, so the record at \<open>p\<close> and all the objects it refers to have
  their values of before, and the record at \<open>q\<close> holds the merged value.
\<close>

theorem merge_scraped_data_h_frame:
  "load h p = Some e \<Longrightarrow>
   (\<exists>h' q. merge_scraped_data_h h p ds = Some (h', q)
      \<and> q \<ge> length h \<and> q \<noteq> p
      \<and> take (length h) h' = h
      \<and> load h' p = Some e
      \<and> load h' q = Some (merge_scraped_data e ds))"
proof -
  assume l: "load h p = Some e"
  have "p < length h"
    using l by (auto simp: load_def deref_def cell_at_def split: bind_splits if_splits)
  with l show ?thesis
    by (simp add: merge_scraped_data_h_eq load_append load_new_record)
qed

lemma load_rock_heap: "load rock_heap 0 = Some rock_concert"
  using load_new_record [of "[]" rock_concert] by (simp add: rock_heap_def new_record_def)

theorem merge_scraped_data_h_frame_witness:
  "load rock_heap 0 = Some rock_concert
   \<and> (\<exists>h' q. merge_scraped_data_h rock_heap 0 [test_page] = Some (h', q)
        \<and> q \<ge> length rock_heap \<and> q \<noteq> 0 \<and> take (length rock_heap) h' = rock_heap
        \<and> load h' 0 = Some rock_concert
        \<and> load h' q = Some (merge_scraped_data rock_concert [test_page]))"
  using merge_scraped_data_h_frame [OF load_rock_heap, of "[test_page]"] load_rock_heap
  by simp

lemma enhance_event_data_frame:
  assumes "load h p = Some e" "enhance_event_data en h p urls = (h', r)"
  shows "take (length h) h' = h \<and> load h' p = Some e"
proof (cases "urls = []")
  case True
  with assms show ?thesis by (simp add: enhance_event_data_def)
next
  case False
  show ?thesis
  proof (cases "scrape_urls en urls")
    case (Inl err)
    with False assms show ?thesis by (simp add: enhance_event_data_def)
  next
    case (Inr ds)
    from merge_scraped_data_h_eq [OF assms(1), of ds] load_append [OF assms(1)]
    obtain h2 q where
      m: "merge_scraped_data_h h p ds = Some (h2, q)" "take (length h) h2 = h"
        "load h2 p = Some e" by simp
    with False Inr assms(2) show ?thesis by (simp add: enhance_event_data_def)
  qed
qed

text \<open>
  Claim C6.  When the enrichment phase raises (on entering the scraper context, in the
  enhancement itself, or on leaving the context after the merge has run), the enhancement
  step returns the reference it was given, and the record at that reference and every
  object of the heap before the call hold their values of before.
\<close>

theorem enhance_with_web_scraping_fallback:
  "load h p = Some e \<Longrightarrow> phase_raises en h p urls \<Longrightarrow>
   snd (enhance_with_web_scraping en h p urls) = p
   \<and> load (fst (enhance_with_web_scraping en h p urls)) p = Some e
   \<and> take (length h) (fst (enhance_with_web_scraping en h p urls)) = h"
proof -
  assume l: "load h p = Some e" and r: "phase_raises en h p urls"
  obtain h' res where eh: "enhance_event_data en h p urls = (h', res)"
    by (cases "enhance_event_data en h p urls")
  from enhance_event_data_frame [OF l eh] have f: "take (length h) h' = h" "load h' p = Some e"
    by simp_all
  show ?thesis
  proof (cases "enter_error en")
    case (Some err)
    with l show ?thesis by (simp add: enhance_with_web_scraping_def)
  next
    case None
    show ?thesis
    proof (cases res)
      case (Inl err)
      with None eh f show ?thesis by (simp add: enhance_with_web_scraping_def)
    next
      case (Inr q)
      with r None eh have "exit_error en \<noteq> None" by (simp add: phase_raises_def)
      then obtain err where "exit_error en = Some err" by blast
      with None eh f Inr show ?thesis by (simp add: enhance_with_web_scraping_def)
    qed
  qed
qed

theorem enhance_with_web_scraping_fallback_witness:
  "load rock_heap 0 = Some rock_concert
   \<and> phase_raises failing_exit rock_heap 0 [S ''https://test.de'']
   \<and> snd (enhance_with_web_scraping failing_exit rock_heap 0 [S ''https://test.de'']) = 0
   \<and> load (fst (enhance_with_web_scraping failing_exit rock_heap 0 [S ''https://test.de''])) 0
       = Some rock_concert
   \<and> length (fst (enhance_with_web_scraping failing_exit rock_heap 0 [S ''https://test.de'']))
       = 26"
proof -
  have r: "phase_raises failing_exit rock_heap 0 [S ''https://test.de'']"
    by (simp add: phase_raises_def failing_exit_def)
  have n: "length rock_heap = 13"
    by (simp add: rock_heap_def new_record_def length_record_cells)
  have "fst (enhance_with_web_scraping failing_exit rock_heap 0 [S ''https://test.de''])
     = rock_heap @ record_cells (length rock_heap) (merge_scraped_data rock_concert [test_page])"
    by (simp add: enhance_with_web_scraping_def enhance_event_data_def failing_exit_def S_def
        merge_scraped_data_h_eq [OF load_rock_heap])
  then have len: "length (fst (enhance_with_web_scraping failing_exit rock_heap 0
      [S ''https://test.de''])) = 26"
    by (simp add: n length_record_cells)
  from enhance_with_web_scraping_fallback [OF load_rock_heap r] r load_rock_heap len show ?thesis by simp
qed

end
